theory Spec2Isabelle
  imports Complex_Main "HOL-Library.Char_ord" "HOL-Library.List_Lexorder"
begin

section \<open>Python values used by the server\<close>

text \<open>
  A shallow embedding of \<^verbatim>\<open>src/prometheus_mcp_server/server.py\<close>: the multi-region
  request router of the Prometheus MCP server. Strings are \<^typ>\<open>string\<close>, a
  \<^typ>\<open>char\<close> standing for a code point up to U+00FF; a Python
  \<^verbatim>\<open>dict\<close> is an association list in insertion order whose keys are distinct; values
  decoded from JSON are a datatype of their own (numbers are restricted to integers,
  which no operation of the router inspects).
\<close>

datatype json =
    JNull
  | JBool bool
  | JNum int
  | JStr string
  | JArr "json list"
  | JObj "(string \<times> json) list"

text \<open>
  Exceptions as values. \<open>ValueError m\<close> carries its message. \<open>PrometheusAPIError v\<close>
  is the \<^verbatim>\<open>ValueError(f"Prometheus API error: {error_msg}")\<close> of the request client and
  carries \<^verbatim>\<open>error_msg\<close> itself. \<open>RequestException\<close> stands for the transport failures
  of \<^verbatim>\<open>requests\<close> (connection, timeout, TLS), \<open>HTTPError\<close> for the one
  \<^verbatim>\<open>raise_for_status\<close> raises. \<open>JSONDecodeError\<close> is \<^verbatim>\<open>json.JSONDecodeError\<close> of the
  standard library; \<open>RequestsJSONDecodeError\<close> is \<^verbatim>\<open>requests.exceptions.JSONDecodeError\<close>,
  which inherits from both \<^verbatim>\<open>RequestException\<close> (through \<^verbatim>\<open>InvalidJSONError\<close>) and
  \<^verbatim>\<open>json.JSONDecodeError\<close>. The string carried by both is \<^verbatim>\<open>str(e)\<close>.
\<close>

datatype exn =
    ValueError string
  | PrometheusAPIError json
  | KeyError string
  | TypeError string
  | AttributeError string
  | RequestException string
  | HTTPError nat
  | JSONDecodeError string
  | RequestsJSONDecodeError string

fun isinstance_RequestException :: "exn \<Rightarrow> bool" where
  "isinstance_RequestException (RequestException m) = True"
| "isinstance_RequestException (HTTPError c) = True"
| "isinstance_RequestException (RequestsJSONDecodeError m) = True"
| "isinstance_RequestException e = False"

fun isinstance_JSONDecodeError :: "exn \<Rightarrow> bool" where
  "isinstance_JSONDecodeError (JSONDecodeError m) = True"
| "isinstance_JSONDecodeError (RequestsJSONDecodeError m) = True"
| "isinstance_JSONDecodeError e = False"

fun isinstance_ValueError :: "exn \<Rightarrow> bool" where
  "isinstance_ValueError (ValueError m) = True"
| "isinstance_ValueError (PrometheusAPIError v) = True"
| "isinstance_ValueError (JSONDecodeError m) = True"
| "isinstance_ValueError (RequestsJSONDecodeError m) = True"
| "isinstance_ValueError e = False"

subsection \<open>Strings\<close>

text \<open>
  \<^verbatim>\<open>str.lower()\<close>, on the code points a \<^typ>\<open>char\<close> holds (up to U+00FF): the letters
  A to Z, and the capital letters U+00C0 to U+00DE other than the multiplication sign
  U+00D7, move up by 32; every other code point stays.
\<close>

definition lower_char :: "char \<Rightarrow> char" where
  "lower_char c =
     (let n = (of_char c :: nat)
      in if (65 \<le> n \<and> n \<le> 90) \<or> (192 \<le> n \<and> n < 215) \<or> (215 < n \<and> n \<le> 222)
         then char_of (n + 32) else c)"

definition lower :: "string \<Rightarrow> string" where
  "lower s = map lower_char s"

text \<open>\<^verbatim>\<open>sep.join(xs)\<close>.\<close>

fun join :: "string \<Rightarrow> string list \<Rightarrow> string" where
  "join sep [] = []"
| "join sep [x] = x"
| "join sep (x # y # ys) = x @ sep @ join sep (y # ys)"

text \<open>\<^verbatim>\<open>s.rstrip('/')\<close>: every trailing slash is removed.\<close>

definition rstrip_slash :: "string \<Rightarrow> string" where
  "rstrip_slash s = rev (dropWhile (\<lambda>c. c = CHR ''/'') (rev s))"

text \<open>\<^verbatim>\<open>sub in s\<close> for two strings: \<open>sub\<close> occurs in \<open>s\<close> as a contiguous run.\<close>

fun starts_with :: "string \<Rightarrow> string \<Rightarrow> bool" where
  "starts_with [] s = True"
| "starts_with (p # ps) [] = False"
| "starts_with (p # ps) (c # cs) = (p = c \<and> starts_with ps cs)"

fun str_contains :: "string \<Rightarrow> string \<Rightarrow> bool" where
  "str_contains sub [] = (sub = [])"
| "str_contains sub (c # cs) = (starts_with sub (c # cs) \<or> str_contains sub cs)"

text \<open>\<^verbatim>\<open>str(n)\<close> for an integer.\<close>

fun str_nat :: "nat \<Rightarrow> string" where
  "str_nat n =
     (if n < 10 then [char_of (48 + n)] else str_nat (n div 10) @ [char_of (48 + n mod 10)])"

definition str_int :: "int \<Rightarrow> string" where
  "str_int i = (if i < 0 then CHR ''-'' # str_nat (nat (- i)) else str_nat (nat i))"

text \<open>\<^verbatim>\<open>int(x)\<close> for a float: truncation towards zero.\<close>

definition py_int :: "real \<Rightarrow> int" where
  "py_int x = (if 0 \<le> x then \<lfloor>x\<rfloor> else \<lceil>x\<rceil>)"

subsection \<open>Dictionaries\<close>

text \<open>\<^verbatim>\<open>d[k] = v\<close>: an existing key keeps its place, a new key goes last.\<close>

fun dict_set :: "'k \<Rightarrow> 'v \<Rightarrow> ('k \<times> 'v) list \<Rightarrow> ('k \<times> 'v) list" where
  "dict_set k v [] = [(k, v)]"
| "dict_set k v ((k', v') # d) = (if k' = k then (k, v) # d else (k', v') # dict_set k v d)"

text \<open>\<^verbatim>\<open>d.update(other)\<close>: the entries of \<open>other\<close> are stored one by one, in order.\<close>

fun dict_update :: "('k \<times> 'v) list \<Rightarrow> ('k \<times> 'v) list \<Rightarrow> ('k \<times> 'v) list" where
  "dict_update d [] = d"
| "dict_update d ((k, v) # other) = dict_update (dict_set k v d) other"

section \<open>Configuration\<close>

record RegionConfig =
  url :: string
  url_ssl_verify :: bool
  username :: "string option"
  password :: "string option"
  token :: "string option"
  custom_headers :: "(string \<times> string) list option"

record MCPServerConfig =
  mcp_server_transport :: string
  mcp_bind_host :: string
  mcp_bind_port :: int

record PrometheusConfig =
  regions :: "(string \<times> RegionConfig) list"
  default_region :: string
  disable_prometheus_links :: bool
  org_id :: "string option"
  mcp_server_config :: "MCPServerConfig option"

text \<open>The truth value of an \<^verbatim>\<open>Optional[str]\<close>: \<^verbatim>\<open>None\<close> and \<^verbatim>\<open>""\<close> are false.\<close>

fun opt_str :: "string option \<Rightarrow> string" where
  "opt_str None = []"
| "opt_str (Some s) = s"

section \<open>Region registry\<close>

text \<open>
  \<^verbatim>\<open>get_region_config\<close>: \<^verbatim>\<open>None\<close> selects the default region; the name is lowercased
  and looked up; a name that is no key raises \<^verbatim>\<open>ValueError\<close> with the requested name
  and the sorted keys, joined by \<^verbatim>\<open>", "\<close>.
\<close>

definition unknown_region_message :: "string \<Rightarrow> string list \<Rightarrow> string" where
  "unknown_region_message region names =
     ''Region '' @ [CHR 0x27] @ region @ [CHR 0x27] @
     '' is not configured. Available regions: '' @ join '', '' names"

definition get_region_config ::
  "PrometheusConfig \<Rightarrow> string option \<Rightarrow> exn + (string \<times> RegionConfig)" where
  "get_region_config config region =
     (let region' = (case region of None \<Rightarrow> default_region config | Some r \<Rightarrow> r);
          region_normalized = lower region'
      in case map_of (regions config) region_normalized of
           None \<Rightarrow>
             Inl (ValueError
               (unknown_region_message region' (sort (map fst (regions config)))))
         | Some region_config \<Rightarrow> Inr (region_normalized, region_config))"

section \<open>The regions of the test suite\<close>

text \<open>The fixture \<^verbatim>\<open>setup_multi_regions\<close> of \<^verbatim>\<open>tests/test_multi_region.py\<close>.\<close>

definition atl_region :: RegionConfig where
  "atl_region =
     \<lparr>url = ''http://atl.example.com:9090'', url_ssl_verify = True, username = Some [],
      password = Some [], token = Some [], custom_headers = None\<rparr>"

definition blr_region :: RegionConfig where
  "blr_region =
     \<lparr>url = ''http://blr.example.com:9090'', url_ssl_verify = True, username = Some [],
      password = Some [], token = Some ''token123'',
      custom_headers = Some [(''X-Custom'', ''blr-value'')]\<rparr>"

definition wdc_region :: RegionConfig where
  "wdc_region =
     \<lparr>url = ''http://wdc.example.com:9090'', url_ssl_verify = False,
      username = Some ''admin'', password = Some ''pass'', token = Some [],
      custom_headers = None\<rparr>"

definition test_config :: PrometheusConfig where
  "test_config =
     \<lparr>regions = [(''atl'', atl_region), (''blr'', blr_region), (''wdc'', wdc_region)],
      default_region = ''atl'', disable_prometheus_links = False, org_id = Some [],
      mcp_server_config =
        Some \<lparr>mcp_server_transport = ''stdio'', mcp_bind_host = ''127.0.0.1'',
              mcp_bind_port = 8080\<rparr>\<rparr>"

section \<open>Request client\<close>

text \<open>
  \<^verbatim>\<open>get_prometheus_auth\<close> returns a header dictionary for a bearer token, an
  \<^verbatim>\<open>HTTPBasicAuth\<close> object for a username and password, or \<^verbatim>\<open>None\<close>.
\<close>

datatype auth = AuthDict "(string \<times> string) list" | HTTPBasicAuth string string

definition get_prometheus_auth :: "RegionConfig \<Rightarrow> auth option" where
  "get_prometheus_auth region_config =
     (if opt_str (token region_config) \<noteq> [] then
        Some (AuthDict [(''Authorization'', ''Bearer '' @ opt_str (token region_config))])
      else if opt_str (username region_config) \<noteq> [] \<and> opt_str (password region_config) \<noteq> []
      then Some (HTTPBasicAuth (opt_str (username region_config))
                   (opt_str (password region_config)))
      else None)"

text \<open>
  The arguments of one \<^verbatim>\<open>requests.get\<close> call, and what the library gives back: the
  call raises, or returns a response with a status code whose \<^verbatim>\<open>json()\<close> method returns
  the decoded body or raises. The network is a parameter of the model.
\<close>

record request =
  req_url :: string
  req_params :: "(string \<times> string) list option"
  req_auth :: "auth option"
  req_headers :: "(string \<times> string) list"
  req_verify :: bool

record response =
  status_code :: nat
  json_result :: "exn + json"

type_synonym network = "request \<Rightarrow> exn + response"

text \<open>\<^verbatim>\<open>response.raise_for_status()\<close>: a 4xx or 5xx status raises \<^verbatim>\<open>HTTPError\<close>.\<close>

definition raise_for_status :: "response \<Rightarrow> exn + unit" where
  "raise_for_status r =
     (if 400 \<le> status_code r \<and> status_code r < 600 then Inl (HTTPError (status_code r))
      else Inr ())"

text \<open>\<^verbatim>\<open>obj[key]\<close> with a string key, \<^verbatim>\<open>d.get(key, default)\<close>, \<^verbatim>\<open>len(obj)\<close>.\<close>

fun py_getitem :: "json \<Rightarrow> string \<Rightarrow> exn + json" where
  "py_getitem (JObj d) k = (case map_of d k of None \<Rightarrow> Inl (KeyError k) | Some v \<Rightarrow> Inr v)"
| "py_getitem (JArr xs) k = Inl (TypeError ''list indices must be integers or slices, not str'')"
| "py_getitem (JStr s) k = Inl (TypeError ''string indices must be integers'')"
| "py_getitem v k = Inl (TypeError ''object is not subscriptable'')"

fun py_get :: "json \<Rightarrow> string \<Rightarrow> json \<Rightarrow> exn + json" where
  "py_get (JObj d) k dflt = (case map_of d k of None \<Rightarrow> Inr dflt | Some v \<Rightarrow> Inr v)"
| "py_get v k dflt = Inl (AttributeError ''object has no attribute get'')"

fun py_len :: "json \<Rightarrow> exn + nat" where
  "py_len (JArr xs) = Inr (length xs)"
| "py_len (JObj d) = Inr (length d)"
| "py_len (JStr s) = Inr (length s)"
| "py_len v = Inl (TypeError ''object has no len()'')"

text \<open>
  The headers of the call, in the order the code builds them: the bearer header, then
  \<^verbatim>\<open>X-Scope-OrgID\<close> when an organization id is configured, then the region's custom
  headers, each step storing into the same dictionary.
\<close>

definition build_headers :: "PrometheusConfig \<Rightarrow> RegionConfig \<Rightarrow> (string \<times> string) list" where
  "build_headers config region_config =
     (let headers0 = (case get_prometheus_auth region_config of
                        Some (AuthDict d) \<Rightarrow> dict_update [] d
                      | _ \<Rightarrow> []);
          headers1 = (if opt_str (org_id config) \<noteq> []
                      then dict_set ''X-Scope-OrgID'' (opt_str (org_id config)) headers0
                      else headers0)
      in case custom_headers region_config of
           None \<Rightarrow> headers1
         | Some custom \<Rightarrow> if custom \<noteq> [] then dict_update headers1 custom else headers1)"

definition build_request ::
  "PrometheusConfig \<Rightarrow> RegionConfig \<Rightarrow> string \<Rightarrow> (string \<times> string) list option \<Rightarrow> request" where
  "build_request config region_config endpoint params =
     \<lparr>req_url = rstrip_slash (url region_config) @ ''/api/v1/'' @ endpoint,
      req_params = params,
      req_auth = (case get_prometheus_auth region_config of
                    Some (AuthDict d) \<Rightarrow> None
                  | a \<Rightarrow> a),
      req_headers = build_headers config region_config,
      req_verify = url_ssl_verify region_config\<rparr>"

text \<open>
  The body of the \<^verbatim>\<open>try\<close> block: the call, \<^verbatim>\<open>raise_for_status\<close>, \<^verbatim>\<open>json()\<close>, the
  check of the \<^verbatim>\<open>status\<close> field and the read of \<^verbatim>\<open>data\<close>.
\<close>

definition request_body :: "network \<Rightarrow> request \<Rightarrow> exn + json" where
  "request_body net rq =
     (case net rq of
        Inl e \<Rightarrow> Inl e
      | Inr resp \<Rightarrow>
          (case raise_for_status resp of
             Inl e \<Rightarrow> Inl e
           | Inr u \<Rightarrow>
               (case json_result resp of
                  Inl e \<Rightarrow> Inl e
                | Inr result \<Rightarrow>
                    (case py_getitem result ''status'' of
                       Inl e \<Rightarrow> Inl e
                     | Inr st \<Rightarrow>
                         if st \<noteq> JStr ''success'' then
                           (case py_get result ''error'' (JStr ''Unknown error'') of
                              Inl e \<Rightarrow> Inl e
                            | Inr error_msg \<Rightarrow> Inl (PrometheusAPIError error_msg))
                         else
                           (case py_get result ''data'' (JObj []) of
                              Inl e \<Rightarrow> Inl e
                            | Inr data_field \<Rightarrow> py_getitem result ''data'')))))"

text \<open>
  The \<^verbatim>\<open>except\<close> clauses, tried in the order of the source: a \<^verbatim>\<open>RequestException\<close>
  is raised again; a \<^verbatim>\<open>json.JSONDecodeError\<close> that reaches the second clause becomes a
  \<^verbatim>\<open>ValueError\<close>; anything else is raised again.
\<close>

fun decode_error_text :: "exn \<Rightarrow> string" where
  "decode_error_text (JSONDecodeError m) = m"
| "decode_error_text (RequestsJSONDecodeError m) = m"
| "decode_error_text e = []"

definition request_handlers :: "exn \<Rightarrow> exn" where
  "request_handlers e =
     (if isinstance_RequestException e then e
      else if isinstance_JSONDecodeError e then
        ValueError (''Invalid JSON response from Prometheus: '' @ decode_error_text e)
      else e)"

text \<open>
  \<^verbatim>\<open>make_prometheus_request\<close>. The last argument and the second component of the
  result are the list of \<^verbatim>\<open>requests.get\<close> calls issued so far, oldest first.
\<close>

definition make_prometheus_request ::
  "PrometheusConfig \<Rightarrow> network \<Rightarrow> string \<Rightarrow> (string \<times> string) list option \<Rightarrow>
   string option \<Rightarrow> request list \<Rightarrow> (exn + json) \<times> request list" where
  "make_prometheus_request config net endpoint params region sent =
     (case get_region_config config region of
        Inl e \<Rightarrow> (Inl e, sent)
      | Inr (region_name, region_config) \<Rightarrow>
          if url region_config = [] then
            (Inl (ValueError (''Prometheus URL is not configured for region '' @
                    [CHR 0x27] @ region_name @ [CHR 0x27] @ ''.'')), sent)
          else
            (let rq = build_request config region_config endpoint params
             in (case request_body net rq of
                   Inl e \<Rightarrow> Inl (request_handlers e)
                 | Inr data \<Rightarrow> Inr data,
                 sent @ [rq])))"

section \<open>Metrics cache\<close>

text \<open>
  The module state: \<^verbatim>\<open>_metrics_cache\<close>, a dictionary from \<^verbatim>\<open>"{region}_metrics"\<close> to an
  entry with \<^verbatim>\<open>data\<close> and \<^verbatim>\<open>timestamp\<close>, and the calls issued to the network. The clock
  reading \<^verbatim>\<open>time.time()\<close> is an argument.
\<close>

record cache_entry =
  entry_data :: json
  entry_timestamp :: real

record server_state =
  metrics_cache :: "(string \<times> cache_entry) list"
  requests_sent :: "request list"

definition CACHE_TTL :: real where
  "CACHE_TTL = 300"

text \<open>\<^verbatim>\<open>region.lower() if region else config.default_region\<close>.\<close>

definition region_name_of :: "PrometheusConfig \<Rightarrow> string option \<Rightarrow> string" where
  "region_name_of config region =
     (if opt_str region \<noteq> [] then lower (opt_str region) else default_region config)"

definition cache_valid :: "(string \<times> cache_entry) list \<Rightarrow> string \<Rightarrow> real \<Rightarrow> bool" where
  "cache_valid cache cache_key current_time =
     (case map_of cache cache_key of
        None \<Rightarrow> False
      | Some entry \<Rightarrow>
          entry_data entry \<noteq> JNull \<and> current_time - entry_timestamp entry < CACHE_TTL)"

text \<open>The \<^verbatim>\<open>try\<close> block: the request, the store into the cache, \<^verbatim>\<open>len(data)\<close> for the log.\<close>

definition refresh_metrics ::
  "PrometheusConfig \<Rightarrow> network \<Rightarrow> real \<Rightarrow> string option \<Rightarrow> string \<Rightarrow> server_state \<Rightarrow>
   (exn + json) \<times> server_state" where
  "refresh_metrics config net current_time region cache_key st =
     (case make_prometheus_request config net ''label/__name__/values'' None region
             (requests_sent st) of
        (Inl e, sent') \<Rightarrow> (Inl e, st\<lparr>requests_sent := sent'\<rparr>)
      | (Inr data, sent') \<Rightarrow>
          (let st' = st\<lparr>metrics_cache :=
                          dict_set cache_key
                            \<lparr>entry_data = data, entry_timestamp = current_time\<rparr>
                            (metrics_cache st),
                        requests_sent := sent'\<rparr>
           in case py_len data of
                Inl e \<Rightarrow> (Inl e, st')
              | Inr n \<Rightarrow> (Inr data, st')))"

text \<open>The \<^verbatim>\<open>except Exception\<close> clause: the cached data if there is any, else \<^verbatim>\<open>[]\<close>.\<close>

definition cached_or_empty :: "(string \<times> cache_entry) list \<Rightarrow> string \<Rightarrow> json" where
  "cached_or_empty cache cache_key =
     (case map_of cache cache_key of
        None \<Rightarrow> JArr []
      | Some entry \<Rightarrow> if entry_data entry \<noteq> JNull then entry_data entry else JArr [])"

definition get_cached_metrics ::
  "PrometheusConfig \<Rightarrow> network \<Rightarrow> real \<Rightarrow> string option \<Rightarrow> server_state \<Rightarrow>
   (exn + json) \<times> server_state" where
  "get_cached_metrics config net current_time region st =
     (let region_name = region_name_of config region;
          cache_key = region_name @ ''_metrics''
      in if cache_valid (metrics_cache st) cache_key current_time then
           (case map_of (metrics_cache st) cache_key of
              None \<Rightarrow> (Inl (KeyError cache_key), st)
            | Some entry \<Rightarrow> (Inr (entry_data entry), st))
         else
           (case refresh_metrics config net current_time region cache_key st of
              (Inr data, st') \<Rightarrow> (Inr data, st')
            | (Inl e, st') \<Rightarrow> (Inr (cached_or_empty (metrics_cache st') cache_key), st')))"

section \<open>Operation handlers\<close>

subsection \<open>List metrics\<close>

text \<open>
  Iteration over a decoded value in the comprehension, \<^verbatim>\<open>m.lower()\<close> on an element,
  and the slice \<^verbatim>\<open>data[start:stop]\<close> with Python's treatment of negative and
  out-of-range bounds.
\<close>

fun py_iter :: "json \<Rightarrow> exn + json list" where
  "py_iter (JArr xs) = Inr xs"
| "py_iter (JObj d) = Inr (map (\<lambda>kv. JStr (fst kv)) d)"
| "py_iter (JStr s) = Inr (map (\<lambda>c. JStr [c]) s)"
| "py_iter v = Inl (TypeError ''object is not iterable'')"

fun py_lower :: "json \<Rightarrow> exn + string" where
  "py_lower (JStr s) = Inr (lower s)"
| "py_lower v = Inl (AttributeError ''object has no attribute lower'')"

fun filter_metrics :: "string \<Rightarrow> json list \<Rightarrow> exn + json list" where
  "filter_metrics pat [] = Inr []"
| "filter_metrics pat (m # ms) =
     (case py_lower m of
        Inl e \<Rightarrow> Inl e
      | Inr ml \<Rightarrow>
          (case filter_metrics pat ms of
             Inl e \<Rightarrow> Inl e
           | Inr rest \<Rightarrow> Inr (if str_contains (lower pat) ml then m # rest else rest)))"

definition slice_bound :: "nat \<Rightarrow> int \<Rightarrow> nat" where
  "slice_bound n i = (if i < 0 then nat (max 0 (int n + i)) else min (nat i) n)"

definition py_slice_list :: "'a list \<Rightarrow> int \<Rightarrow> int \<Rightarrow> 'a list" where
  "py_slice_list xs start stop =
     (let lo = slice_bound (length xs) start; hi = slice_bound (length xs) stop
      in take (hi - lo) (drop lo xs))"

text \<open>
  A dictionary is not sliceable: Python up to 3.11 raises \<^verbatim>\<open>TypeError\<close> (a slice is
  unhashable), later versions \<^verbatim>\<open>KeyError\<close>; the model keeps the first.
\<close>

fun py_slice :: "json \<Rightarrow> int \<Rightarrow> int \<Rightarrow> exn + json" where
  "py_slice (JArr xs) start stop = Inr (JArr (py_slice_list xs start stop))"
| "py_slice (JStr s) start stop = Inr (JStr (py_slice_list s start stop))"
| "py_slice v start stop = Inl (TypeError ''object is not sliceable'')"

text \<open>
  \<^verbatim>\<open>list_metrics\<close>, after the request: filter, count, paginate, build the result
  dictionary. Progress reports to the caller's context are not modelled.
\<close>

definition paginate_metrics ::
  "int option \<Rightarrow> int \<Rightarrow> string option \<Rightarrow> string \<Rightarrow> json \<Rightarrow> exn + json" where
  "paginate_metrics limit offset filter_pattern region_name data0 =
     (case (if opt_str filter_pattern \<noteq> [] then
              (case py_iter data0 of
                 Inl e \<Rightarrow> Inl e
               | Inr ms \<Rightarrow>
                   (case filter_metrics (opt_str filter_pattern) ms of
                      Inl e \<Rightarrow> Inl e
                    | Inr filtered_data \<Rightarrow> Inr (JArr filtered_data)))
            else Inr data0) of
        Inl e \<Rightarrow> Inl e
      | Inr data \<Rightarrow>
          (case py_len data of
             Inl e \<Rightarrow> Inl e
           | Inr total_count \<Rightarrow>
               (let start_idx = offset;
                    end_idx = (case limit of
                                 Some l \<Rightarrow> offset + l
                               | None \<Rightarrow> int total_count)
                in case py_slice data start_idx end_idx of
                     Inl e \<Rightarrow> Inl e
                   | Inr paginated_data \<Rightarrow>
                       (case py_len paginated_data of
                          Inl e \<Rightarrow> Inl e
                        | Inr returned_count \<Rightarrow>
                            Inr (JObj
                              [(''metrics'', paginated_data),
                               (''total_count'', JNum (int total_count)),
                               (''returned_count'', JNum (int returned_count)),
                               (''offset'', JNum offset),
                               (''has_more'', JBool (end_idx < int total_count)),
                               (''region'', JStr region_name)])))))"

definition list_metrics ::
  "PrometheusConfig \<Rightarrow> network \<Rightarrow> int option \<Rightarrow> int \<Rightarrow> string option \<Rightarrow> string option \<Rightarrow>
   request list \<Rightarrow> (exn + json) \<times> request list" where
  "list_metrics config net limit offset filter_pattern region sent =
     (let region_name = region_name_of config region
      in case make_prometheus_request config net ''label/__name__/values'' None region sent of
           (Inl e, sent') \<Rightarrow> (Inl e, sent')
         | (Inr data, sent') \<Rightarrow>
             (paginate_metrics limit offset filter_pattern region_name data, sent'))"

subsection \<open>Metric metadata\<close>

text \<open>\<^verbatim>\<open>key in obj\<close> for a string key.\<close>

fun py_contains :: "string \<Rightarrow> json \<Rightarrow> exn + bool" where
  "py_contains k (JObj d) = Inr (map_of d k \<noteq> None)"
| "py_contains k (JArr xs) = Inr (JStr k \<in> set xs)"
| "py_contains k (JStr s) = Inr (str_contains k s)"
| "py_contains k v = Inl (TypeError ''argument is not iterable'')"

definition select_metadata :: "json \<Rightarrow> exn + json" where
  "select_metadata data =
     (case py_contains ''metadata'' data of
        Inl e \<Rightarrow> Inl e
      | Inr in_metadata \<Rightarrow>
          if in_metadata then py_getitem data ''metadata''
          else
            (case py_contains ''data'' data of
               Inl e \<Rightarrow> Inl e
             | Inr in_data \<Rightarrow> if in_data then py_getitem data ''data'' else Inr data))"

text \<open>\<^verbatim>\<open>if isinstance(metadata, dict): metadata = [metadata]\<close>.\<close>

fun wrap_dict :: "json \<Rightarrow> json" where
  "wrap_dict (JObj d) = JArr [JObj d]"
| "wrap_dict v = v"

definition normalize_metadata :: "string \<Rightarrow> json \<Rightarrow> exn + json" where
  "normalize_metadata region_name data =
     (case select_metadata data of
        Inl e \<Rightarrow> Inl e
      | Inr selected \<Rightarrow>
          (let metadata = wrap_dict selected
           in case py_len metadata of
                Inl e \<Rightarrow> Inl e
              | Inr metadata_count \<Rightarrow>
                  Inr (JObj [(''metadata'', metadata), (''region'', JStr region_name)])))"

definition get_metric_metadata ::
  "PrometheusConfig \<Rightarrow> network \<Rightarrow> string \<Rightarrow> string option \<Rightarrow> request list \<Rightarrow>
   (exn + json) \<times> request list" where
  "get_metric_metadata config net metric region sent =
     (let region_name = region_name_of config region;
          endpoint = ''metadata?metric='' @ metric
      in case make_prometheus_request config net endpoint None region sent of
           (Inl e, sent') \<Rightarrow> (Inl e, sent')
         | (Inr data, sent') \<Rightarrow> (normalize_metadata region_name data, sent'))"

subsection \<open>Health check\<close>

text \<open>
  The values of the health payload. \<open>HStrExn e\<close> is the string \<^verbatim>\<open>str(e)\<close> of an
  exception whose text the model does not render; the text of a \<open>ValueError m\<close> is
  \<open>m\<close> itself.
\<close>

datatype hval =
    HStr string
  | HBool bool
  | HList "hval list"
  | HDict "(string \<times> hval) list"
  | HStrExn exn

fun str_exn :: "exn \<Rightarrow> hval" where
  "str_exn (ValueError m) = HStr m"
| "str_exn e = HStrExn e"

text \<open>
  The probe: \<^verbatim>\<open>make_prometheus_request("query", params={"query": "up", "time":
  str(int(time.time()))}, region=region_name)\<close>.
\<close>

definition probe ::
  "PrometheusConfig \<Rightarrow> network \<Rightarrow> real \<Rightarrow> string \<Rightarrow> request list \<Rightarrow>
   (exn + json) \<times> request list" where
  "probe config net now region_name sent =
     make_prometheus_request config net ''query''
       (Some [(''query'', ''up''), (''time'', str_int (py_int now))]) (Some region_name) sent"

definition initial_health_status :: "PrometheusConfig \<Rightarrow> string \<Rightarrow> (string \<times> hval) list" where
  "initial_health_status config timestamp =
     [(''status'', HStr ''healthy''),
      (''service'', HStr ''prometheus-mcp-server''),
      (''version'', HStr ''1.5.1''),
      (''timestamp'', HStr timestamp),
      (''transport'',
         HStr (case mcp_server_config config of
                 Some m \<Rightarrow> mcp_server_transport m
               | None \<Rightarrow> ''stdio'')),
      (''configuration'',
         HDict [(''regions_configured'', HList (map (\<lambda>kv. HStr (fst kv)) (regions config))),
                (''default_region'', HStr (default_region config)),
                (''org_id_configured'', HBool (opt_str (org_id config) \<noteq> []))])]"

text \<open>
  The loop over \<^verbatim>\<open>config.regions.items()\<close>. The accumulator holds \<^verbatim>\<open>regions_status\<close>,
  \<^verbatim>\<open>all_healthy\<close> and the calls issued; \<open>clock k\<close> is the reading of \<^verbatim>\<open>time.time()\<close> in
  the \<open>k\<close>-th iteration.
\<close>

definition healthy_detail :: "RegionConfig \<Rightarrow> hval" where
  "healthy_detail region_config =
     HDict [(''prometheus_connectivity'', HStr ''healthy''),
            (''prometheus_url'', HStr (url region_config))]"

definition degraded_detail :: "exn \<Rightarrow> hval" where
  "degraded_detail e =
     HDict [(''prometheus_connectivity'', HStr ''degraded''),
            (''prometheus_error'', str_exn e)]"

fun check_all_regions ::
  "PrometheusConfig \<Rightarrow> network \<Rightarrow> (nat \<Rightarrow> real) \<Rightarrow> nat \<Rightarrow> (string \<times> RegionConfig) list \<Rightarrow>
   (string \<times> hval) list \<times> bool \<times> request list \<Rightarrow>
   (string \<times> hval) list \<times> bool \<times> request list" where
  "check_all_regions config net clock k [] acc = acc"
| "check_all_regions config net clock k ((region_name, region_config) # items)
     (regions_status, all_healthy, sent) =
     (case probe config net (clock k) region_name sent of
        (Inr d, sent') \<Rightarrow>
          check_all_regions config net clock (Suc k) items
            (dict_set region_name (healthy_detail region_config) regions_status,
             all_healthy, sent')
      | (Inl e, sent') \<Rightarrow>
          check_all_regions config net clock (Suc k) items
            (dict_set region_name (degraded_detail e) regions_status, False, sent'))"

text \<open>The body of the outer \<^verbatim>\<open>try\<close> block.\<close>

definition health_check_body ::
  "PrometheusConfig \<Rightarrow> network \<Rightarrow> (nat \<Rightarrow> real) \<Rightarrow> string \<Rightarrow> string option \<Rightarrow> request list \<Rightarrow>
   (exn + (string \<times> hval) list) \<times> request list" where
  "health_check_body config net clock timestamp region sent =
     (let health_status = initial_health_status config timestamp
      in if opt_str region \<noteq> [] then
           (case get_region_config config region of
              Inl e \<Rightarrow>
                if isinstance_ValueError e then
                  (Inr (dict_set ''error'' (str_exn e)
                          (dict_set ''status'' (HStr ''unhealthy'') health_status)), sent)
                else (Inl e, sent)
            | Inr (region_name, region_config) \<Rightarrow>
                (case probe config net (clock 0) region_name sent of
                   (Inr d, sent') \<Rightarrow>
                     (Inr (dict_set ''region'' (HStr region_name)
                            (dict_set ''prometheus_url'' (HStr (url region_config))
                              (dict_set ''prometheus_connectivity'' (HStr ''healthy'')
                                 health_status))), sent')
                 | (Inl e, sent') \<Rightarrow>
                     (Inr (dict_set ''status'' (HStr ''degraded'')
                            (dict_set ''region'' (HStr region_name)
                              (dict_set ''prometheus_error'' (str_exn e)
                                (dict_set ''prometheus_connectivity'' (HStr ''unhealthy'')
                                   health_status)))), sent')))
         else
           (case check_all_regions config net clock 0 (regions config) ([], True, sent) of
              (regions_status, all_healthy, sent') \<Rightarrow>
                (let health_status' = dict_set ''regions'' (HDict regions_status) health_status
                 in (Inr (if \<not> all_healthy
                          then dict_set ''status'' (HStr ''degraded'') health_status'
                          else health_status'), sent'))))"

text \<open>\<^verbatim>\<open>health_check\<close>: the outer \<^verbatim>\<open>except Exception\<close> turns any exception into a payload.\<close>

definition health_check ::
  "PrometheusConfig \<Rightarrow> network \<Rightarrow> (nat \<Rightarrow> real) \<Rightarrow> string \<Rightarrow> string option \<Rightarrow> request list \<Rightarrow>
   (string \<times> hval) list \<times> request list" where
  "health_check config net clock timestamp region sent =
     (case health_check_body config net clock timestamp region sent of
        (Inr health_status, sent') \<Rightarrow> (health_status, sent')
      | (Inl e, sent') \<Rightarrow>
          ([(''status'', HStr ''unhealthy''),
            (''service'', HStr ''prometheus-mcp-server''),
            (''error'', str_exn e),
            (''timestamp'', HStr timestamp)], sent'))"

section \<open>Networks used in the examples\<close>

text \<open>A server that answers every call with status 200 and a success envelope around \<open>d\<close>.\<close>

definition success_network :: "json \<Rightarrow> network" where
  "success_network d rq =
     Inr \<lparr>status_code = 200,
          json_result = Inr (JObj [(''status'', JStr ''success''), (''data'', d)])\<rparr>"

text \<open>A network on which every call fails with a connection error.\<close>

definition refused_network :: network where
  "refused_network rq = Inl (RequestException ''Connection refused'')"

text \<open>The answer of a healthy server to the probe query.\<close>

definition vector_result :: json where
  "vector_result = JObj [(''resultType'', JStr ''vector''), (''result'', JArr [])]"

text \<open>A network on which only the calls to the \<^verbatim>\<open>blr\<close> host fail.\<close>

definition blr_down_network :: network where
  "blr_down_network rq =
     (if starts_with ''http://blr.example.com:9090'' (req_url rq)
      then Inl (RequestException ''Connection refused'')
      else success_network vector_result rq)"

text \<open>
  The \<^verbatim>\<open>blr\<close> region with a custom \<^verbatim>\<open>Authorization\<close> header beside its bearer token,
  and a configuration with an organization id.
\<close>

definition override_region :: RegionConfig where
  "override_region =
     blr_region\<lparr>custom_headers := Some [(''Authorization'', ''Basic c2VjcmV0'')]\<rparr>"

definition override_config :: PrometheusConfig where
  "override_config =
     test_config\<lparr>regions := [(''atl'', atl_region), (''blr'', override_region)],
                 org_id := Some ''tenant-1''\<rparr>"

text \<open>
  A server that answers with status 200 and a body that is no JSON, seen through
  \<^verbatim>\<open>requests\<close> 2.27 or later: \<^verbatim>\<open>response.json()\<close> raises
  \<^verbatim>\<open>requests.exceptions.JSONDecodeError\<close>.
\<close>

definition invalid_json_network :: network where
  "invalid_json_network rq =
     Inr \<lparr>status_code = 200,
          json_result =
            Inl (RequestsJSONDecodeError ''Expecting value: line 1 column 1 (char 0)'')\<rparr>"

text \<open>Payloads of the examples: a metadata entry and a list of metric names.\<close>

definition up_entry :: json where
  "up_entry = JObj [(''metric'', JStr ''up'')]"

definition sample_names :: "string list" where
  "sample_names = [''up'', ''go_goroutines'', ''http_requests_total'', ''node_UPtime'']"

text \<open>
  States of the examples: nothing cached; an entry for \<^verbatim>\<open>atl\<close> fetched at time 100; and
  the state after a successful fetch for \<^verbatim>\<open>atl\<close> at time 1000.
\<close>

definition empty_state :: server_state where
  "empty_state = \<lparr>metrics_cache = [], requests_sent = []\<rparr>"

definition stale_state :: server_state where
  "stale_state =
     \<lparr>metrics_cache =
        [(''atl_metrics'', \<lparr>entry_data = JArr [JStr ''up''], entry_timestamp = 100\<rparr>)],
      requests_sent = []\<rparr>"

definition warm_state :: server_state where
  "warm_state =
     snd (get_cached_metrics test_config (success_network (JArr [JStr ''up''])) 1000
            (Some ''atl'') empty_state)"

section \<open>Properties of the region registry\<close>

lemma lower_char_idem: "lower_char (lower_char c) = lower_char c"
proof (cases "(65 \<le> (of_char c :: nat) \<and> (of_char c :: nat) \<le> 90)
    \<or> (192 \<le> (of_char c :: nat) \<and> (of_char c :: nat) < 215)
    \<or> (215 < (of_char c :: nat) \<and> (of_char c :: nat) \<le> 222)")
  case True
  then have "(of_char c + 32 :: nat) mod 256 = of_char c + 32"
    by auto
  then have up: "(of_char (char_of (of_char c + 32 :: nat)) :: nat) = of_char c + 32"
    by (simp only: of_char_of)
  have "lower_char c = char_of (of_char c + 32 :: nat)"
    using True by (simp add: lower_char_def Let_def)
  moreover have "lower_char (char_of (of_char c + 32 :: nat)) = char_of (of_char c + 32 :: nat)"
    using True by (auto simp: lower_char_def Let_def up)
  ultimately show ?thesis
    by simp
next
  case False
  then have "lower_char c = c"
    by (auto simp: lower_char_def Let_def)
  then show ?thesis
    by simp
qed

lemma lower_idem: "lower (lower s) = lower s"
  by (simp add: lower_def lower_char_idem)

lemma map_of_None_iff_keys: "map_of d k = None \<longleftrightarrow> k \<notin> set (map fst d)"
  by (simp add: map_of_eq_None_iff)

lemma test_keys: "map fst (regions test_config) = [''atl'', ''blr'', ''wdc'']"
  by (simp add: test_config_def)

lemma sort_test_keys: "sort [''atl'', ''blr'', ''wdc''] = [''atl'', ''blr'', ''wdc'']"
  by code_simp

text \<open>
  C7. A requested region whose lowercased name is not a configured key (for \<^verbatim>\<open>None\<close>,
  the default region's name) makes \<^verbatim>\<open>get_region_config\<close> raise the unknown-region
  \<^verbatim>\<open>ValueError\<close>. Its message carries the name as requested and the names of the
  configured regions, which are exactly the configured keys, in ascending order. The
  function only reads the configuration: its result holds no registry, so none is
  changed.
\<close>

theorem get_region_config_unknown:
  assumes "requested = (case region of None \<Rightarrow> default_region config | Some r \<Rightarrow> r)"
    and "lower requested \<notin> set (map fst (regions config))"
  shows "get_region_config config region =
           Inl (ValueError
             (unknown_region_message requested (sort (map fst (regions config)))))
         \<and> sorted (sort (map fst (regions config)))
         \<and> set (sort (map fst (regions config))) = set (map fst (regions config))"
proof -
  have "map_of (regions config) (lower requested) = None"
    using assms(2) by (simp add: map_of_None_iff_keys)
  then show ?thesis
    using assms(1) by (simp add: get_region_config_def Let_def)
qed

theorem get_region_config_unknown_witness:
  "lower ''Invalid'' \<notin> set (map fst (regions test_config))
   \<and> get_region_config test_config (Some ''Invalid'') =
       Inl (ValueError
         (''Region '' @ [CHR 0x27] @ ''Invalid'' @ [CHR 0x27] @
          '' is not configured. Available regions: atl, blr, wdc''))"
proof -
  have low: "lower ''Invalid'' = ''invalid''"
    by code_simp
  have h: "lower ''Invalid'' \<notin> set (map fst (regions test_config))"
    by (simp add: low test_keys)
  have "get_region_config test_config (Some ''Invalid'') =
          Inl (ValueError
            (unknown_region_message ''Invalid'' (sort (map fst (regions test_config)))))"
    using get_region_config_unknown
      [where requested = "''Invalid''" and region = "Some ''Invalid''" and config = test_config] h
    by simp
  then show ?thesis
    using h by (simp add: test_keys sort_test_keys unknown_region_message_def)
qed

text \<open>
  C9. Resolution is case-insensitive and idempotent. Whenever the lowercased name is a
  configured key, any two spellings with the same lowercase form resolve to the same
  pair of canonical (lowercase) name and configuration, and resolving the canonical
  name returned gives that pair again.
\<close>

theorem get_region_config_case_insensitive:
  assumes "map_of (regions config) (lower r1) = Some region_config"
    and "lower r2 = lower r1"
  shows "get_region_config config (Some r1) = Inr (lower r1, region_config)
         \<and> get_region_config config (Some r2) = get_region_config config (Some r1)
         \<and> get_region_config config (Some (lower r1)) = get_region_config config (Some r1)"
  using assms by (simp add: get_region_config_def Let_def lower_idem)

theorem get_region_config_case_insensitive_witness:
  "map_of (regions test_config) (lower ''ATL'') = Some atl_region
   \<and> lower ''AtL'' = lower ''ATL''
   \<and> get_region_config test_config (Some ''ATL'') = Inr (''atl'', atl_region)
   \<and> get_region_config test_config (Some ''AtL'') = Inr (''atl'', atl_region)
   \<and> get_region_config test_config (Some ''atl'') = Inr (''atl'', atl_region)"
proof -
  have l1: "lower ''ATL'' = ''atl''" by code_simp
  have l2: "lower ''AtL'' = ''atl''" by code_simp
  have h1: "map_of (regions test_config) (lower ''ATL'') = Some atl_region"
    by (simp add: l1 test_config_def)
  have h2: "lower ''AtL'' = lower ''ATL''"
    by (simp add: l1 l2)
  show ?thesis
    using get_region_config_case_insensitive [OF h1 h2] h1 h2
    by (simp add: l1)
qed

section \<open>Properties of the request client\<close>

lemma map_of_dict_set: "map_of (dict_set k v d) = (map_of d)(k \<mapsto> v)"
  by (induction d) (auto simp: fun_eq_iff)

lemma map_of_dict_update:
  "distinct (map fst other) \<Longrightarrow> map_of (dict_update d other) = map_of d ++ map_of other"
proof (induction other arbitrary: d)
  case Nil
  then show ?case by simp
next
  case (Cons kv other)
  obtain k v where kv: "kv = (k, v)" by (cases kv)
  from Cons.prems kv have nk: "k \<notin> fst ` set other" and d: "distinct (map fst other)"
    by auto
  have "map_of (dict_update d (kv # other)) = map_of (dict_update (dict_set k v d) other)"
    using kv by simp
  also have "\<dots> = map_of (dict_set k v d) ++ map_of other"
    by (rule Cons.IH [OF d])
  also have "\<dots> = (map_of d)(k \<mapsto> v) ++ map_of other"
    by (simp only: map_of_dict_set)
  also have "\<dots> = map_of d ++ map_of (kv # other)"
  proof -
    have none: "map_of other k = None"
      using nk by (simp add: map_of_eq_None_iff)
    show ?thesis
      using none kv by (auto simp: fun_eq_iff map_add_def split: option.splits)
  qed
  finally show ?case .
qed

lemma build_headers_lookup:
  assumes "opt_str (token region_config) \<noteq> []"
    and "custom = (case custom_headers region_config of None \<Rightarrow> [] | Some c \<Rightarrow> c)"
    and "distinct (map fst custom)"
  shows "map_of (build_headers config region_config) =
           ([''Authorization'' \<mapsto> ''Bearer '' @ opt_str (token region_config)]
            ++ (if opt_str (org_id config) \<noteq> []
                then [''X-Scope-OrgID'' \<mapsto> opt_str (org_id config)] else Map.empty))
           ++ map_of custom"
proof (cases "custom = []")
  case True
  with assms show ?thesis
    by (auto simp: build_headers_def get_prometheus_auth_def map_of_dict_set fun_eq_iff map_add_def
        split: option.splits)
next
  case False
  with assms show ?thesis
    by (auto simp: build_headers_def get_prometheus_auth_def map_of_dict_set map_of_dict_update
        fun_eq_iff map_add_def split: option.splits)
qed

lemma make_prometheus_request_sent:
  assumes "get_region_config config region = Inr (region_name, region_config)"
    and "url region_config \<noteq> []"
  shows "snd (make_prometheus_request config net endpoint params region sent) =
           sent @ [build_request config region_config endpoint params]"
  using assms by (simp add: make_prometheus_request_def Let_def)

text \<open>
  C2, as the code has it. The headers are stored in the order bearer header,
  organization header, custom headers, each store overwriting an earlier entry of the
  same name. For a region with a non-empty bearer token, whose custom headers are
  \<open>custom\<close> (none at all counts as empty), the one request issued carries under
  \<^verbatim>\<open>Authorization\<close> the custom header's value when the custom headers have that key, and
  \<^verbatim>\<open>Bearer <token>\<close> only when they have not; under \<^verbatim>\<open>X-Scope-OrgID\<close> it carries the
  custom value when there is one, else the configured organization id.
\<close>

theorem custom_headers_override_all:
  assumes "get_region_config config region = Inr (region_name, region_config)"
    and "url region_config \<noteq> []"
    and "opt_str (token region_config) \<noteq> []"
    and "custom = (case custom_headers region_config of None \<Rightarrow> [] | Some c \<Rightarrow> c)"
    and "distinct (map fst custom)"
  shows "snd (make_prometheus_request config net endpoint params region sent) =
           sent @ [build_request config region_config endpoint params]
         \<and> map_of (req_headers (build_request config region_config endpoint params))
               ''Authorization'' =
             (case map_of custom ''Authorization'' of
                Some v \<Rightarrow> Some v
              | None \<Rightarrow> Some (''Bearer '' @ opt_str (token region_config)))
         \<and> map_of (req_headers (build_request config region_config endpoint params))
               ''X-Scope-OrgID'' =
             (case map_of custom ''X-Scope-OrgID'' of
                Some v \<Rightarrow> Some v
              | None \<Rightarrow> if opt_str (org_id config) \<noteq> [] then Some (opt_str (org_id config))
                        else None)"
proof -
  have sent: "snd (make_prometheus_request config net endpoint params region sent) =
           sent @ [build_request config region_config endpoint params]"
    by (rule make_prometheus_request_sent [OF assms(1,2)])
  have hdr: "req_headers (build_request config region_config endpoint params) =
           build_headers config region_config"
    by (simp add: build_request_def)
  show ?thesis
    using sent by (simp add: hdr build_headers_lookup [OF assms(3,4,5)] map_add_def
        split: option.splits)
qed

theorem custom_headers_override_all_witness:
  "get_region_config override_config (Some ''BLR'') = Inr (''blr'', override_region)
   \<and> url override_region \<noteq> []
   \<and> opt_str (token override_region) \<noteq> []
   \<and> custom_headers override_region = Some [(''Authorization'', ''Basic c2VjcmV0'')]
   \<and> distinct (map fst [(''Authorization'', ''Basic c2VjcmV0'')])
   \<and> snd (make_prometheus_request override_config refused_network ''query'' None
            (Some ''BLR'') []) =
         [build_request override_config override_region ''query'' None]
   \<and> map_of (req_headers (build_request override_config override_region ''query'' None))
         ''Authorization'' = Some ''Basic c2VjcmV0''
   \<and> map_of (req_headers (build_request override_config override_region ''query'' None))
         ''X-Scope-OrgID'' = Some ''tenant-1''"
proof -
  have h1: "get_region_config override_config (Some ''BLR'') = Inr (''blr'', override_region)"
    by code_simp
  have h2: "url override_region \<noteq> []"
    by (simp add: override_region_def blr_region_def)
  have h3: "opt_str (token override_region) \<noteq> []"
    by (simp add: override_region_def blr_region_def)
  have h4: "custom_headers override_region = Some [(''Authorization'', ''Basic c2VjcmV0'')]"
    by (simp add: override_region_def)
  have h4': "[(''Authorization'', ''Basic c2VjcmV0'')] =
               (case custom_headers override_region of None \<Rightarrow> [] | Some c \<Rightarrow> c)"
    by (simp add: h4)
  have h5: "distinct (map fst [(''Authorization'', ''Basic c2VjcmV0'')])"
    by simp
  have org: "opt_str (org_id override_config) = ''tenant-1''"
    by (simp add: override_config_def)
  show ?thesis
    using custom_headers_override_all [OF h1 h2 h3 h4' h5, of refused_network "''query''" None "[]"]
      h1 h2 h3 h4
    by (simp add: org)
qed

text \<open>
  C2, as stated, fails: the region \<^verbatim>\<open>blr\<close> has the bearer token \<^verbatim>\<open>token123\<close> and a custom
  header \<^verbatim>\<open>Authorization\<close>; the request is sent with the custom value, not with
  \<^verbatim>\<open>Bearer token123\<close>.
\<close>

theorem bearer_header_kept_counterexample:
  "opt_str (token override_region) = ''token123''
   \<and> map_of [(''Authorization'', ''Basic c2VjcmV0'')] ''Authorization'' \<noteq> None
   \<and> map (\<lambda>rq. map_of (req_headers rq) ''Authorization'')
         (snd (make_prometheus_request override_config (success_network JNull) ''query'' None
                 (Some ''blr'') [])) = [Some ''Basic c2VjcmV0'']
   \<and> Some ''Basic c2VjcmV0'' \<noteq> Some (''Bearer '' @ ''token123'')"
proof -
  have a: "opt_str (token override_region) = ''token123''"
    by (simp add: override_region_def blr_region_def)
  have b: "map (\<lambda>rq. map_of (req_headers rq) ''Authorization'')
         (snd (make_prometheus_request override_config (success_network JNull) ''query'' None
                 (Some ''blr'') [])) = [Some ''Basic c2VjcmV0'']"
    by code_simp
  show ?thesis
    using a b by simp
qed

text \<open>
  The two decode errors at the handlers: the standard library's error reaches the second
  clause and becomes the invalid-JSON \<^verbatim>\<open>ValueError\<close>; the error of \<^verbatim>\<open>requests\<close> is a
  \<^verbatim>\<open>RequestException\<close>, so the first clause raises it again unchanged.
\<close>

lemma stdlib_decode_error_handled:
  "request_handlers (JSONDecodeError m) =
     ValueError (''Invalid JSON response from Prometheus: '' @ m)"
  by (simp add: request_handlers_def)

lemma requests_decode_error_reraised:
  "request_handlers (RequestsJSONDecodeError m) = RequestsJSONDecodeError m"
  by (simp add: request_handlers_def)

lemma json_failure_result:
  assumes "get_region_config config region = Inr (region_name, region_config)"
    and "url region_config \<noteq> []"
    and "net (build_request config region_config endpoint params) = Inr resp"
    and "200 \<le> status_code resp" and "status_code resp < 300"
    and "json_result resp = Inl e"
  shows "fst (make_prometheus_request config net endpoint params region sent) =
           Inl (request_handlers e)"
  using assms
  by (auto simp: make_prometheus_request_def Let_def request_body_def raise_for_status_def)

text \<open>
  C3, evaluated on the code. A response with status 200 whose \<^verbatim>\<open>json()\<close> raises the
  decode error of \<^verbatim>\<open>requests\<close> makes \<^verbatim>\<open>make_prometheus_request\<close> fail with that very
  error, an instance of \<^verbatim>\<open>RequestException\<close>, and not with the \<^verbatim>\<open>ValueError\<close> that
  states an invalid JSON response.
\<close>

theorem invalid_json_body_reraised:
  "fst (make_prometheus_request test_config invalid_json_network ''query'' None
          (Some ''atl'') []) =
     Inl (RequestsJSONDecodeError ''Expecting value: line 1 column 1 (char 0)'')
   \<and> isinstance_RequestException
         (RequestsJSONDecodeError ''Expecting value: line 1 column 1 (char 0)'')"
proof -
  have "fst (make_prometheus_request test_config invalid_json_network ''query'' None
          (Some ''atl'') []) =
     Inl (RequestsJSONDecodeError ''Expecting value: line 1 column 1 (char 0)'')"
    by code_simp
  then show ?thesis
    by simp
qed

text \<open>
  C10. \<^verbatim>\<open>get_metric_metadata\<close> issues one call whose URL is the region's base URL without
  trailing slashes, followed by \<^verbatim>\<open>/api/v1/metadata?metric=\<close> and the metric name exactly
  as given, with no query parameters passed beside it: nothing in the name is escaped
  before the URL is handed to the HTTP library.
\<close>

theorem metadata_url_verbatim:
  assumes "get_region_config config region = Inr (region_name, region_config)"
    and "url region_config \<noteq> []"
  shows "map req_url (snd (get_metric_metadata config net metric region sent)) =
           map req_url sent @
             [rstrip_slash (url region_config) @ ''/api/v1/metadata?metric='' @ metric]
         \<and> map req_params (snd (get_metric_metadata config net metric region sent)) =
             map req_params sent @ [None]"
proof -
  have "snd (get_metric_metadata config net metric region sent) =
          snd (make_prometheus_request config net (''metadata?metric='' @ metric) None region sent)"
    by (simp add: get_metric_metadata_def Let_def split: prod.splits sum.splits)
  then show ?thesis
    by (simp add: make_prometheus_request_sent [OF assms] build_request_def)
qed

theorem metadata_url_verbatim_witness:
  "get_region_config test_config (Some ''atl'') = Inr (''atl'', atl_region)
   \<and> url atl_region \<noteq> []
   \<and> map req_url (snd (get_metric_metadata test_config refused_network
                          ''up&match[]=x #y z'' (Some ''atl'') [])) =
       [''http://atl.example.com:9090/api/v1/metadata?metric=up&match[]=x #y z'']
   \<and> map req_params (snd (get_metric_metadata test_config refused_network
                          ''up&match[]=x #y z'' (Some ''atl'') [])) = [None]"
proof -
  have h1: "get_region_config test_config (Some ''atl'') = Inr (''atl'', atl_region)"
    by code_simp
  have h2: "url atl_region \<noteq> []"
    by (simp add: atl_region_def)
  have r: "rstrip_slash (url atl_region) = ''http://atl.example.com:9090''"
    by code_simp
  show ?thesis
    using metadata_url_verbatim [OF h1 h2, of refused_network "''up&match[]=x #y z''" "[]"] h1 h2
    by (simp add: r)
qed

section \<open>Properties of the handlers\<close>

lemma normalize_metadata_object:
  assumes "selected = (case map_of d ''metadata'' of
                         Some v \<Rightarrow> v
                       | None \<Rightarrow> (case map_of d ''data'' of Some v \<Rightarrow> v | None \<Rightarrow> JObj d))"
    and "(\<exists>xs. selected = JArr xs) \<or> (\<exists>m. selected = JObj m)"
  shows "normalize_metadata region_name (JObj d) =
           Inr (JObj [(''metadata'', wrap_dict selected), (''region'', JStr region_name)])"
  using assms
  by (auto simp: normalize_metadata_def select_metadata_def Let_def split: option.splits)

text \<open>
  C8. When the request returns a mapping, \<^verbatim>\<open>get_metric_metadata\<close> takes the value under
  \<^verbatim>\<open>metadata\<close> if that key is present, else the value under \<^verbatim>\<open>data\<close> if that key is
  present, else the mapping itself; a mapping selected this way is wrapped into a
  one-element sequence and a sequence is kept. The result holds it under \<^verbatim>\<open>metadata\<close>
  beside the region name. The three payloads of the claim all give the one-element
  sequence of the entry for \<^verbatim>\<open>up\<close>.
\<close>

theorem metadata_normalization:
  assumes "fst (make_prometheus_request config net (''metadata?metric='' @ metric) None region
                  sent) = Inr (JObj d)"
    and "selected = (case map_of d ''metadata'' of
                       Some v \<Rightarrow> v
                     | None \<Rightarrow> (case map_of d ''data'' of Some v \<Rightarrow> v | None \<Rightarrow> JObj d))"
    and "(\<exists>xs. selected = JArr xs) \<or> (\<exists>m. selected = JObj m)"
  shows "fst (get_metric_metadata config net metric region sent) =
           Inr (JObj [(''metadata'', (case selected of JObj m \<Rightarrow> JArr [JObj m] | v \<Rightarrow> v)),
                      (''region'', JStr (region_name_of config region))])"
proof -
  have w: "wrap_dict selected = (case selected of JObj m \<Rightarrow> JArr [JObj m] | v \<Rightarrow> v)"
    by (cases selected) simp_all
  obtain sent' where
    "make_prometheus_request config net (''metadata?metric='' @ metric) None region sent =
       (Inr (JObj d), sent')"
    using assms(1) by (cases "make_prometheus_request config net (''metadata?metric='' @ metric)
                                None region sent") simp
  then show ?thesis
    by (simp add: get_metric_metadata_def Let_def normalize_metadata_object [OF assms(2,3)] w)
qed

lemma success_network_result:
  assumes "get_region_config config region = Inr (region_name, region_config)"
    and "url region_config \<noteq> []"
  shows "fst (make_prometheus_request config (success_network d) endpoint params region sent) =
           Inr d"
  using assms
  by (simp add: make_prometheus_request_def Let_def request_body_def raise_for_status_def
      success_network_def)

lemma atl_resolves: "get_region_config test_config (Some ''atl'') = Inr (''atl'', atl_region)"
  by code_simp

lemma atl_url: "url atl_region \<noteq> []"
  by (simp add: atl_region_def)

lemma atl_name: "region_name_of test_config (Some ''atl'') = ''atl''"
  by code_simp

theorem metadata_normalization_witness:
  "fst (get_metric_metadata test_config (success_network (JObj [(''data'', JArr [up_entry])]))
          ''up'' (Some ''atl'') []) =
     Inr (JObj [(''metadata'', JArr [up_entry]), (''region'', JStr ''atl'')])
   \<and> fst (get_metric_metadata test_config (success_network (JObj [(''metadata'', up_entry)]))
          ''up'' (Some ''atl'') []) =
     Inr (JObj [(''metadata'', JArr [up_entry]), (''region'', JStr ''atl'')])
   \<and> fst (get_metric_metadata test_config (success_network up_entry)
          ''up'' (Some ''atl'') []) =
     Inr (JObj [(''metadata'', JArr [up_entry]), (''region'', JStr ''atl'')])"
proof -
  note ok = success_network_result [OF atl_resolves atl_url]
  have a: "fst (get_metric_metadata test_config
                  (success_network (JObj [(''data'', JArr [up_entry])])) ''up'' (Some ''atl'') []) =
     Inr (JObj [(''metadata'', JArr [up_entry]), (''region'', JStr ''atl'')])"
    using metadata_normalization [where config = test_config and metric = "''up''"
        and net = "success_network (JObj [(''data'', JArr [up_entry])])"
        and region = "Some ''atl''" and sent = "[]" and d = "[(''data'', JArr [up_entry])]"
        and selected = "JArr [up_entry]", OF ok]
    by (simp add: atl_name)
  have b: "fst (get_metric_metadata test_config
                  (success_network (JObj [(''metadata'', up_entry)])) ''up'' (Some ''atl'') []) =
     Inr (JObj [(''metadata'', JArr [up_entry]), (''region'', JStr ''atl'')])"
    using metadata_normalization [where config = test_config and metric = "''up''"
        and net = "success_network (JObj [(''metadata'', up_entry)])"
        and region = "Some ''atl''" and sent = "[]" and d = "[(''metadata'', up_entry)]"
        and selected = "up_entry", OF ok]
    by (simp add: atl_name up_entry_def)
  have c: "fst (get_metric_metadata test_config (success_network up_entry) ''up''
                  (Some ''atl'') []) =
     Inr (JObj [(''metadata'', JArr [up_entry]), (''region'', JStr ''atl'')])"
    using metadata_normalization [where config = test_config and metric = "''up''"
        and net = "success_network (JObj [(''metric'', JStr ''up'')])"
        and region = "Some ''atl''" and sent = "[]" and d = "[(''metric'', JStr ''up'')]"
        and selected = "up_entry", OF ok]
    by (simp add: atl_name up_entry_def)
  show ?thesis
    using a b c by simp
qed

lemma filter_metrics_names:
  "filter_metrics pat (map JStr names) =
     Inr (map JStr (filter (\<lambda>m. str_contains (lower pat) (lower m)) names))"
  by (induction names) simp_all

lemma slice_bound_nonneg: "0 \<le> i \<Longrightarrow> slice_bound n i = min (nat i) n"
  by (simp add: slice_bound_def)

lemma py_slice_list_forward:
  assumes "0 \<le> a" and "0 \<le> b"
  shows "py_slice_list xs a b =
           take (nat (min (b - a) (max 0 (int (length xs) - a)))) (drop (nat a) xs)"
proof -
  note b0 = assms(2)
  have eq: "py_slice_list xs a b =
      take (min (nat b) (length xs) - min (nat a) (length xs)) (drop (min (nat a) (length xs)) xs)"
    by (simp add: py_slice_list_def Let_def slice_bound_nonneg [OF assms(1)]
        slice_bound_nonneg [OF b0])
  show ?thesis
  proof (cases "nat a \<le> length xs")
    case True
    with assms have "min (nat b) (length xs) - min (nat a) (length xs) =
        nat (min (b - a) (max 0 (int (length xs) - a)))"
      by (auto simp: min_def max_def)
    with True show ?thesis
      by (simp add: eq min_def)
  next
    case False
    then show ?thesis
      by (simp add: eq)
  qed
qed

lemma paginate_metrics_list:
  assumes "0 \<le> offset"
    and "limit = None \<or> (\<exists>l. limit = Some l \<and> 0 \<le> l)"
    and "filtered = (if opt_str filter_pattern \<noteq> []
                     then filter (\<lambda>m. str_contains (lower (opt_str filter_pattern)) (lower m)) names
                     else names)"
    and "remaining = max 0 (int (length filtered) - offset)"
    and "returned = min (case limit of Some l \<Rightarrow> l | None \<Rightarrow> remaining) remaining"
  shows "paginate_metrics limit offset filter_pattern region_name (JArr (map JStr names)) =
     Inr (JObj [(''metrics'', JArr (map JStr (take (nat returned) (drop (nat offset) filtered)))),
        (''total_count'', JNum (int (length filtered))),
        (''returned_count'', JNum returned),
        (''offset'', JNum offset),
        (''has_more'', JBool (offset + returned < int (length filtered))),
        (''region'', JStr region_name)])"
proof -
  define end_idx where "end_idx = (case limit of Some l \<Rightarrow> offset + l | None \<Rightarrow> int (length filtered))"
  have step1: "(if opt_str filter_pattern \<noteq> [] then
              (case py_iter (JArr (map JStr names)) of
                 Inl e \<Rightarrow> Inl e
               | Inr ms \<Rightarrow>
                   (case filter_metrics (opt_str filter_pattern) ms of
                      Inl e \<Rightarrow> Inl e
                    | Inr filtered_data \<Rightarrow> Inr (JArr filtered_data)))
            else Inr (JArr (map JStr names))) = Inr (JArr (map JStr filtered))"
    by (simp add: assms(3) filter_metrics_names)
  have e0: "0 \<le> end_idx"
    using assms(1,2) by (auto simp: end_idx_def)
  have ret: "nat returned = nat (min (end_idx - offset) (max 0 (int (length filtered) - offset)))"
    using assms(1,2) by (auto simp: end_idx_def assms(4,5))
  have ret0: "0 \<le> returned"
    using assms(1,2) by (auto simp: assms(4,5))
  have slice: "py_slice_list (map JStr filtered) offset end_idx =
      map JStr (take (nat returned) (drop (nat offset) filtered))"
    using py_slice_list_forward [OF assms(1) e0, of "map JStr filtered"]
    by (simp add: ret take_map drop_map)
  have len: "int (length (take (nat returned) (drop (nat offset) filtered))) = returned"
    using ret0 assms(1,2) by (auto simp: assms(4,5) min_def max_def)
  have more: "(end_idx < int (length filtered)) = (offset + returned < int (length filtered))"
    using assms(1,2) by (auto simp: end_idx_def assms(4,5) min_def max_def)
  show ?thesis
    unfolding paginate_metrics_def step1
    using slice len more
    by (simp add: Let_def end_idx_def [symmetric])
qed

text \<open>
  C4. For a list of metric names, an offset that is not negative and a limit that is
  absent or not negative, \<^verbatim>\<open>list_metrics\<close> returns the names that pass the filter (all
  of them when the filter is absent or empty), cut to the page: \<^verbatim>\<open>total_count\<close> is the
  number of names after the filter, \<^verbatim>\<open>returned_count\<close> is
  \<open>min L (max 0 (total_count - offset))\<close> with \<open>L\<close> the limit, or the remaining length
  when the limit is absent, and \<^verbatim>\<open>has_more\<close> is \<open>offset + returned_count < total_count\<close>.
\<close>

theorem list_metrics_pagination:
  assumes "fst (make_prometheus_request config net ''label/__name__/values'' None region sent) =
             Inr (JArr (map JStr names))"
    and "0 \<le> offset"
    and "limit = None \<or> (\<exists>l. limit = Some l \<and> 0 \<le> l)"
    and "filtered = (if opt_str filter_pattern \<noteq> []
                     then filter (\<lambda>m. str_contains (lower (opt_str filter_pattern)) (lower m)) names
                     else names)"
    and "remaining = max 0 (int (length filtered) - offset)"
    and "returned = min (case limit of Some l \<Rightarrow> l | None \<Rightarrow> remaining) remaining"
  shows "fst (list_metrics config net limit offset filter_pattern region sent) =
     Inr (JObj [(''metrics'', JArr (map JStr (take (nat returned) (drop (nat offset) filtered)))),
        (''total_count'', JNum (int (length filtered))),
        (''returned_count'', JNum returned),
        (''offset'', JNum offset),
        (''has_more'', JBool (offset + returned < int (length filtered))),
        (''region'', JStr (region_name_of config region))])"
proof -
  obtain sent' where
    "make_prometheus_request config net ''label/__name__/values'' None region sent =
       (Inr (JArr (map JStr names)), sent')"
    using assms(1)
    by (cases "make_prometheus_request config net ''label/__name__/values'' None region sent")
      simp
  then show ?thesis
    by (simp add: list_metrics_def Let_def paginate_metrics_list [OF assms(2-6)])
qed

lemma wdc_resolves: "get_region_config test_config (Some ''wdc'') = Inr (''wdc'', wdc_region)"
  by code_simp

lemma wdc_url: "url wdc_region \<noteq> []"
  by (simp add: wdc_region_def)

theorem list_metrics_pagination_witness:
  "fst (make_prometheus_request test_config (success_network (JArr (map JStr sample_names)))
          ''label/__name__/values'' None (Some ''wdc'') []) = Inr (JArr (map JStr sample_names))
   \<and> fst (list_metrics test_config (success_network (JArr (map JStr sample_names)))
            (Some 1) 0 (Some ''Up'') (Some ''wdc'') []) =
       Inr (JObj [(''metrics'', JArr [JStr ''up'']),
                  (''total_count'', JNum 2),
                  (''returned_count'', JNum 1),
                  (''offset'', JNum 0),
                  (''has_more'', JBool True),
                  (''region'', JStr ''wdc'')])"
proof -
  have ok: "fst (make_prometheus_request test_config
                   (success_network (JArr (map JStr sample_names)))
                   ''label/__name__/values'' None (Some ''wdc'') []) =
              Inr (JArr (map JStr sample_names))"
    by (rule success_network_result [OF wdc_resolves wdc_url])
  have f: "filter (\<lambda>m. str_contains (lower ''Up'') (lower m)) sample_names =
             [''up'', ''node_UPtime'']"
    by code_simp
  have n: "region_name_of test_config (Some ''wdc'') = ''wdc''"
    by code_simp
  have "fst (list_metrics test_config (success_network (JArr (map JStr sample_names)))
            (Some 1) 0 (Some ''Up'') (Some ''wdc'') []) =
       Inr (JObj [(''metrics'', JArr [JStr ''up'']),
                  (''total_count'', JNum 2),
                  (''returned_count'', JNum 1),
                  (''offset'', JNum 0),
                  (''has_more'', JBool True),
                  (''region'', JStr ''wdc'')])"
    using list_metrics_pagination [where config = test_config
        and net = "success_network (JArr (map JStr sample_names))" and region = "Some ''wdc''"
        and sent = "[]" and names = sample_names and offset = 0 and limit = "Some 1"
        and filter_pattern = "Some ''Up''" and filtered = "[''up'', ''node_UPtime'']"
        and remaining = 2 and returned = 1, OF ok]
    by (simp add: f n)
  with ok show ?thesis
    by simp
qed

section \<open>Properties of the metrics cache\<close>

lemma cache_valid_entry:
  "cache_valid cache cache_key t \<Longrightarrow>
     \<exists>entry. map_of cache cache_key = Some entry \<and> entry_data entry \<noteq> JNull"
  by (auto simp: cache_valid_def split: option.splits)

lemma refresh_metrics_failure:
  assumes "fst (make_prometheus_request config net ''label/__name__/values'' None region
                  (requests_sent st)) = Inl e"
  shows "fst (refresh_metrics config net t region cache_key st) = Inl e
         \<and> metrics_cache (snd (refresh_metrics config net t region cache_key st)) =
             metrics_cache st"
  using assms by (auto simp: refresh_metrics_def split: prod.splits sum.splits)

lemma refresh_metrics_cache:
  "metrics_cache (snd (refresh_metrics config net t region cache_key st)) = metrics_cache st
   \<or> (\<exists>data. fst (make_prometheus_request config net ''label/__name__/values'' None region
                     (requests_sent st)) = Inr data
        \<and> metrics_cache (snd (refresh_metrics config net t region cache_key st)) =
            dict_set cache_key \<lparr>entry_data = data, entry_timestamp = t\<rparr> (metrics_cache st))"
  by (auto simp: refresh_metrics_def Let_def split: prod.splits sum.splits)

lemma get_cached_metrics_cache:
  "metrics_cache (snd (get_cached_metrics config net t region st)) = metrics_cache st
   \<or> (\<exists>data. fst (make_prometheus_request config net ''label/__name__/values'' None region
                     (requests_sent st)) = Inr data
        \<and> metrics_cache (snd (get_cached_metrics config net t region st)) =
            dict_set (region_name_of config region @ ''_metrics'')
              \<lparr>entry_data = data, entry_timestamp = t\<rparr> (metrics_cache st))"
proof (cases "cache_valid (metrics_cache st) (region_name_of config region @ ''_metrics'') t")
  case True
  then show ?thesis
    by (auto simp: get_cached_metrics_def Let_def split: option.splits)
next
  case False
  have "snd (get_cached_metrics config net t region st) =
          snd (refresh_metrics config net t region (region_name_of config region @ ''_metrics'') st)"
    using False by (simp add: get_cached_metrics_def Let_def split: prod.splits sum.splits)
  then show ?thesis
    using refresh_metrics_cache [of config net t region "region_name_of config region @ ''_metrics''" st]
    by simp
qed

text \<open>
  What holds of \<^verbatim>\<open>get_cached_metrics\<close> on every input: it never raises. When the request
  of the refresh fails, the cache is left as it was and the result is the data of the
  region's entry if there is one with data other than \<^verbatim>\<open>None\<close>, expired or not, and the
  empty list otherwise. No entry is ever removed, and an entry only changes when it is
  the region's own and the request has returned.
\<close>

lemma get_cached_metrics_request_failure:
  assumes "cache_key = region_name_of config region @ ''_metrics''"
    and "outcome = get_cached_metrics config net current_time region st"
    and "fetched = fst (make_prometheus_request config net ''label/__name__/values'' None region
                          (requests_sent st))"
  shows "\<not> isl (fst outcome)
         \<and> (isl fetched \<longrightarrow>
              metrics_cache (snd outcome) = metrics_cache st
              \<and> fst outcome =
                  Inr (case map_of (metrics_cache st) cache_key of
                         None \<Rightarrow> JArr []
                       | Some entry \<Rightarrow>
                           if entry_data entry \<noteq> JNull then entry_data entry else JArr []))
         \<and> (\<forall>k entry. map_of (metrics_cache st) k = Some entry \<longrightarrow>
              map_of (metrics_cache (snd outcome)) k = Some entry
              \<or> (k = cache_key \<and> \<not> isl fetched))"
proof -
  have never: "\<not> isl (fst outcome)"
  proof (cases "cache_valid (metrics_cache st) cache_key current_time")
    case True
    then obtain entry where "map_of (metrics_cache st) cache_key = Some entry"
      using cache_valid_entry by blast
    with True show ?thesis
      by (simp add: assms(1,2) get_cached_metrics_def Let_def)
  next
    case False
    then show ?thesis
      by (simp add: assms(1,2) get_cached_metrics_def Let_def split: prod.splits sum.splits)
  qed
  have degraded: "metrics_cache (snd outcome) = metrics_cache st
              \<and> fst outcome =
                  Inr (case map_of (metrics_cache st) cache_key of
                         None \<Rightarrow> JArr []
                       | Some entry \<Rightarrow>
                           if entry_data entry \<noteq> JNull then entry_data entry else JArr [])"
    if failed: "isl fetched"
  proof (cases "cache_valid (metrics_cache st) cache_key current_time")
    case True
    then obtain entry where "map_of (metrics_cache st) cache_key = Some entry"
      and "entry_data entry \<noteq> JNull"
      using cache_valid_entry by blast
    with True show ?thesis
      by (simp add: assms(1,2) get_cached_metrics_def Let_def)
  next
    case False
    from failed obtain e where e: "fetched = Inl e"
      by (cases fetched) simp_all
    note r = refresh_metrics_failure [OF e [unfolded assms(3)], of current_time cache_key]
    obtain st' where st': "refresh_metrics config net current_time region cache_key st = (Inl e, st')"
      using r by (cases "refresh_metrics config net current_time region cache_key st") simp
    with r have c: "metrics_cache st' = metrics_cache st"
      by simp
    show ?thesis
      using False st' c
      by (simp add: assms(1,2) get_cached_metrics_def Let_def cached_or_empty_def)
  qed
  have kept: "map_of (metrics_cache (snd outcome)) k = Some entry
              \<or> (k = cache_key \<and> \<not> isl fetched)"
    if "map_of (metrics_cache st) k = Some entry" for k entry
    using get_cached_metrics_cache [of config net current_time region st] that
    by (auto simp: assms map_of_dict_set split: if_splits)
  show ?thesis
    using never degraded kept by blast
qed

lemma refused_network_result:
  assumes "get_region_config config region = Inr (region_name, region_config)"
    and "url region_config \<noteq> []"
  shows "fst (make_prometheus_request config refused_network endpoint params region sent) =
           Inl (RequestException ''Connection refused'')"
  using assms
  by (simp add: make_prometheus_request_def Let_def request_body_def refused_network_def
      request_handlers_def)

lemma get_cached_metrics_request_failure_example:
  "isl (fst (make_prometheus_request test_config refused_network ''label/__name__/values'' None
               (Some ''atl'') (requests_sent stale_state)))
   \<and> \<not> cache_valid (metrics_cache stale_state) ''atl_metrics'' 1000
   \<and> fst (get_cached_metrics test_config refused_network 1000 (Some ''atl'') stale_state) =
       Inr (JArr [JStr ''up''])
   \<and> metrics_cache (snd (get_cached_metrics test_config refused_network 1000 (Some ''atl'')
                           stale_state)) = metrics_cache stale_state
   \<and> fst (get_cached_metrics test_config refused_network 1000 (Some ''atl'') empty_state) =
       Inr (JArr [])"
proof -
  note failed = refused_network_result [OF atl_resolves atl_url]
  have stale: "\<not> cache_valid (metrics_cache stale_state) ''atl_metrics'' 1000"
    by (simp add: cache_valid_def stale_state_def CACHE_TTL_def)
  have a: "fst (get_cached_metrics test_config refused_network 1000 (Some ''atl'') stale_state) =
         Inr (JArr [JStr ''up''])
       \<and> metrics_cache (snd (get_cached_metrics test_config refused_network 1000 (Some ''atl'')
                           stale_state)) = metrics_cache stale_state"
    using get_cached_metrics_request_failure [where config = test_config and net = refused_network
        and current_time = 1000 and region = "Some ''atl''" and st = stale_state, OF refl refl refl]
    by (simp add: failed atl_name) (simp add: stale_state_def)
  have b: "fst (get_cached_metrics test_config refused_network 1000 (Some ''atl'') empty_state) =
         Inr (JArr [])"
    using get_cached_metrics_request_failure [where config = test_config and net = refused_network
        and current_time = 1000 and region = "Some ''atl''" and st = empty_state, OF refl refl refl]
    by (simp add: failed atl_name) (simp add: empty_state_def)
  show ?thesis
    using a b stale by (simp add: failed)
qed

text \<open>
  A request that returns \<^verbatim>\<open>None\<close> as data: the store into the cache comes before
  \<^verbatim>\<open>len(data)\<close>, which raises, so the region's entry now holds \<^verbatim>\<open>None\<close> and the
  handler returns the empty list.
\<close>

lemma get_cached_metrics_null_data:
  assumes "\<not> cache_valid (metrics_cache st) (region_name_of config region @ ''_metrics'')
               current_time"
    and "fst (make_prometheus_request config net ''label/__name__/values'' None region
                (requests_sent st)) = Inr JNull"
  shows "fst (get_cached_metrics config net current_time region st) = Inr (JArr [])
         \<and> map_of (metrics_cache (snd (get_cached_metrics config net current_time region st)))
               (region_name_of config region @ ''_metrics'') =
             Some \<lparr>entry_data = JNull, entry_timestamp = current_time\<rparr>"
proof -
  obtain sent' where
    "make_prometheus_request config net ''label/__name__/values'' None region
       (requests_sent st) = (Inr JNull, sent')"
    using assms(2)
    by (cases "make_prometheus_request config net ''label/__name__/values'' None region
                 (requests_sent st)") simp
  then show ?thesis
    using assms(1)
    by (simp add: get_cached_metrics_def Let_def refresh_metrics_def cached_or_empty_def
        map_of_dict_set)
qed

text \<open>
  C5, evaluated on the code. The cache holds for \<^verbatim>\<open>atl\<close> an expired entry with the data
  \<^verbatim>\<open>["up"]\<close>, and the server answers the refresh with a success envelope whose data is
  \<^verbatim>\<open>null\<close>. The refresh fails inside its \<^verbatim>\<open>try\<close> block, at \<^verbatim>\<open>len(data)\<close>; nothing is
  raised, yet the result is the empty list and not the entry's data, and the entry has
  been overwritten by one without data, so that a later refresh whose request fails
  returns the empty list too.
\<close>

theorem null_data_discards_stale_entry:
  "map_of (metrics_cache stale_state) ''atl_metrics'' =
     Some \<lparr>entry_data = JArr [JStr ''up''], entry_timestamp = 100\<rparr>
   \<and> fst (make_prometheus_request test_config (success_network JNull)
            ''label/__name__/values'' None (Some ''atl'') (requests_sent stale_state)) =
       Inr JNull
   \<and> fst (get_cached_metrics test_config (success_network JNull) 1000 (Some ''atl'')
            stale_state) = Inr (JArr [])
   \<and> metrics_cache (snd (get_cached_metrics test_config (success_network JNull) 1000
                           (Some ''atl'') stale_state)) =
       [(''atl_metrics'', \<lparr>entry_data = JNull, entry_timestamp = 1000\<rparr>)]
   \<and> fst (get_cached_metrics test_config refused_network 1400 (Some ''atl'')
            (snd (get_cached_metrics test_config (success_network JNull) 1000
                    (Some ''atl'') stale_state))) = Inr (JArr [])"
proof -
  have stale: "\<not> cache_valid (metrics_cache stale_state) (''atl'' @ ''_metrics'') 1000"
    by (simp add: cache_valid_def stale_state_def CACHE_TTL_def)
  have rq: "make_prometheus_request test_config (success_network JNull)
              ''label/__name__/values'' None (Some ''atl'') [] =
            (Inr JNull, [build_request test_config atl_region ''label/__name__/values'' None])"
    using success_network_result [OF atl_resolves atl_url, of JNull
        "''label/__name__/values''" None "[]"]
      make_prometheus_request_sent [OF atl_resolves atl_url,
        of "success_network JNull" "''label/__name__/values''" None "[]"]
    by (simp add: prod_eq_iff)
  have first: "get_cached_metrics test_config (success_network JNull) 1000 (Some ''atl'')
                 stale_state =
      (Inr (JArr []),
       \<lparr>metrics_cache = [(''atl_metrics'', \<lparr>entry_data = JNull, entry_timestamp = 1000\<rparr>)],
        requests_sent = [build_request test_config atl_region ''label/__name__/values'' None]\<rparr>)"
    using stale
    by (simp add: get_cached_metrics_def Let_def atl_name refresh_metrics_def
        cached_or_empty_def stale_state_def rq)
  have failed: "make_prometheus_request test_config refused_network ''label/__name__/values''
                  None (Some ''atl'') sent =
      (Inl (RequestException ''Connection refused''),
       sent @ [build_request test_config atl_region ''label/__name__/values'' None])" for sent
    using refused_network_result [OF atl_resolves atl_url, of "''label/__name__/values''" None sent]
      make_prometheus_request_sent [OF atl_resolves atl_url,
        of refused_network "''label/__name__/values''" None sent]
    by (simp add: prod_eq_iff)
  have second: "fst (get_cached_metrics test_config refused_network 1400 (Some ''atl'')
      \<lparr>metrics_cache = [(''atl_metrics'', \<lparr>entry_data = JNull, entry_timestamp = 1000\<rparr>)],
        requests_sent = [build_request test_config atl_region ''label/__name__/values'' None]\<rparr>) =
      Inr (JArr [])"
    by (simp add: get_cached_metrics_def Let_def atl_name refresh_metrics_def
        cached_or_empty_def cache_valid_def failed)
  have entry: "map_of (metrics_cache stale_state) ''atl_metrics'' =
     Some \<lparr>entry_data = JArr [JStr ''up''], entry_timestamp = 100\<rparr>"
    by (simp add: stale_state_def)
  have fetched: "fst (make_prometheus_request test_config (success_network JNull)
            ''label/__name__/values'' None (Some ''atl'') (requests_sent stale_state)) =
       Inr JNull"
    by (simp add: stale_state_def rq)
  show ?thesis
    using entry fetched second by (simp add: first)
qed

lemma list_metrics_sent:
  "snd (list_metrics config net limit offset filter_pattern region sent) =
     snd (make_prometheus_request config net ''label/__name__/values'' None region sent)"
  by (simp add: list_metrics_def Let_def split: prod.splits sum.splits)

lemma refresh_metrics_sent:
  "requests_sent (snd (refresh_metrics config net t region cache_key st)) =
     snd (make_prometheus_request config net ''label/__name__/values'' None region
            (requests_sent st))"
  by (simp add: refresh_metrics_def Let_def split: prod.splits sum.splits)

lemma get_cached_metrics_refresh:
  assumes "\<not> cache_valid (metrics_cache st) (region_name_of config region @ ''_metrics'') t"
  shows "snd (get_cached_metrics config net t region st) =
           snd (refresh_metrics config net t region (region_name_of config region @ ''_metrics'') st)"
  using assms by (simp add: get_cached_metrics_def Let_def split: prod.splits sum.splits)

text \<open>
  C1, as the code has it. \<^verbatim>\<open>list_metrics\<close> calls \<^verbatim>\<open>make_prometheus_request\<close> itself and
  neither reads nor writes the metrics cache: for a region that resolves to a
  configuration with a URL, every call issues exactly one request, whatever the cache
  holds. The freshness behaviour is that of \<^verbatim>\<open>get_cached_metrics\<close> alone: with a valid
  entry it issues no request and leaves the state as it is; without one it issues
  exactly one request; and after a refresh whose request returned data other than
  \<^verbatim>\<open>None\<close> the entry is valid exactly for the 300 seconds that follow.
\<close>

theorem list_metrics_bypasses_cache:
  assumes "get_region_config config region = Inr (region_name, region_config)"
    and "url region_config \<noteq> []"
    and "cache_key = region_name_of config region @ ''_metrics''"
    and "rq = build_request config region_config ''label/__name__/values'' None"
  shows "snd (list_metrics config net limit offset filter_pattern region (requests_sent st)) =
           requests_sent st @ [rq]
         \<and> (cache_valid (metrics_cache st) cache_key current_time \<longrightarrow>
              snd (get_cached_metrics config net current_time region st) = st)
         \<and> (\<not> cache_valid (metrics_cache st) cache_key current_time \<longrightarrow>
              requests_sent (snd (get_cached_metrics config net current_time region st)) =
                requests_sent st @ [rq])
         \<and> (\<forall>data later.
              \<not> cache_valid (metrics_cache st) cache_key current_time
              \<and> fst (make_prometheus_request config net ''label/__name__/values'' None region
                        (requests_sent st)) = Inr data
              \<and> data \<noteq> JNull \<longrightarrow>
              cache_valid
                (metrics_cache (snd (get_cached_metrics config net current_time region st)))
                cache_key later = (later - current_time < CACHE_TTL))"
proof -
  note sent = make_prometheus_request_sent [OF assms(1,2)]
  have a: "snd (list_metrics config net limit offset filter_pattern region (requests_sent st)) =
           requests_sent st @ [rq]"
    by (simp add: list_metrics_sent sent assms(4))
  have b: "snd (get_cached_metrics config net current_time region st) = st"
    if "cache_valid (metrics_cache st) cache_key current_time"
    using that cache_valid_entry [OF that]
    by (auto simp: get_cached_metrics_def Let_def assms(3))
  have c: "requests_sent (snd (get_cached_metrics config net current_time region st)) =
                requests_sent st @ [rq]"
    if "\<not> cache_valid (metrics_cache st) cache_key current_time"
    using that
    by (simp add: assms(3) get_cached_metrics_refresh refresh_metrics_sent sent assms(4))
  have d: "cache_valid
                (metrics_cache (snd (get_cached_metrics config net current_time region st)))
                cache_key later = (later - current_time < CACHE_TTL)"
    if stale: "\<not> cache_valid (metrics_cache st) cache_key current_time"
      and ok: "fst (make_prometheus_request config net ''label/__name__/values'' None region
                        (requests_sent st)) = Inr data"
      and data: "data \<noteq> JNull"
    for data later
  proof -
    have "metrics_cache (snd (refresh_metrics config net current_time region cache_key st)) =
            dict_set cache_key \<lparr>entry_data = data, entry_timestamp = current_time\<rparr>
              (metrics_cache st)"
      using ok by (auto simp: refresh_metrics_def Let_def split: prod.splits sum.splits)
    then show ?thesis
      using stale data
      by (simp add: assms(3) get_cached_metrics_refresh cache_valid_def map_of_dict_set)
  qed
  show ?thesis
    using a b c d by blast
qed

theorem list_metrics_bypasses_cache_witness:
  "get_region_config test_config (Some ''atl'') = Inr (''atl'', atl_region)
   \<and> url atl_region \<noteq> []
   \<and> cache_valid (metrics_cache warm_state) ''atl_metrics'' 1010
   \<and> snd (get_cached_metrics test_config (success_network (JArr [JStr ''up''])) 1010
            (Some ''atl'') warm_state) = warm_state
   \<and> snd (list_metrics test_config (success_network (JArr [JStr ''up''])) None 0 None
            (Some ''atl'') (requests_sent warm_state)) =
       requests_sent warm_state @
         [build_request test_config atl_region ''label/__name__/values'' None]
   \<and> \<not> cache_valid (metrics_cache warm_state) ''atl_metrics'' 1300
   \<and> requests_sent (snd (get_cached_metrics test_config (success_network (JArr [JStr ''up'']))
                            1300 (Some ''atl'') warm_state)) =
       requests_sent warm_state @
         [build_request test_config atl_region ''label/__name__/values'' None]"
proof -
  note ok = success_network_result [OF atl_resolves atl_url]
  have cold: "\<not> cache_valid (metrics_cache empty_state) ''atl_metrics'' 1000"
    by (simp add: cache_valid_def empty_state_def)
  note first = list_metrics_bypasses_cache [where config = test_config and region = "Some ''atl''"
      and net = "success_network (JArr [JStr ''up''])" and st = empty_state
      and current_time = 1000, OF atl_resolves atl_url refl refl]
  have valid: "cache_valid (metrics_cache warm_state) ''atl_metrics'' later =
                 (later - 1000 < CACHE_TTL)" for later
    using first cold ok by (simp add: atl_name warm_state_def)
  have v1: "cache_valid (metrics_cache warm_state) ''atl_metrics'' 1010"
    by (simp add: valid CACHE_TTL_def)
  have v2: "\<not> cache_valid (metrics_cache warm_state) ''atl_metrics'' 1300"
    by (simp add: valid CACHE_TTL_def)
  note second = list_metrics_bypasses_cache [where config = test_config
      and region = "Some ''atl''" and net = "success_network (JArr [JStr ''up''])"
      and st = warm_state, OF atl_resolves atl_url refl refl]
  show ?thesis
    using second [of None 0 None 1010] second [of None 0 None 1300] v1 v2 atl_resolves atl_url
    by (simp add: atl_name)
qed

lemma warm_state_eq:
  "warm_state =
     \<lparr>metrics_cache =
        [(''atl_metrics'', \<lparr>entry_data = JArr [JStr ''up''], entry_timestamp = 1000\<rparr>)],
      requests_sent = [build_request test_config atl_region ''label/__name__/values'' None]\<rparr>"
proof -
  have cold: "\<not> cache_valid (metrics_cache empty_state) (''atl'' @ ''_metrics'') 1000"
    by (simp add: cache_valid_def empty_state_def)
  have rq: "make_prometheus_request test_config (success_network (JArr [JStr ''up'']))
              ''label/__name__/values'' None (Some ''atl'') [] =
            (Inr (JArr [JStr ''up'']),
             [build_request test_config atl_region ''label/__name__/values'' None])"
    using success_network_result [OF atl_resolves atl_url, of "JArr [JStr ''up'']"
        "''label/__name__/values''" None "[]"]
      make_prometheus_request_sent [OF atl_resolves atl_url,
        of "success_network (JArr [JStr ''up''])" "''label/__name__/values''" None "[]"]
    by (simp add: prod_eq_iff)
  show ?thesis
    using cold
    by (simp add: warm_state_def get_cached_metrics_def Let_def atl_name refresh_metrics_def
        empty_state_def rq)
qed

text \<open>
  C1, as stated, fails: after a successful fetch for \<^verbatim>\<open>atl\<close> at time 1000, which issued one
  request and left an entry that is valid at time 1010, a \<^verbatim>\<open>list_metrics\<close> call for
  \<^verbatim>\<open>atl\<close> issues a second request; and so does a \<^verbatim>\<open>list_metrics\<close> call that follows
  another one.
\<close>

theorem list_metrics_uses_cache_counterexample:
  "length (requests_sent warm_state) = 1
   \<and> cache_valid (metrics_cache warm_state) ''atl_metrics'' 1010
   \<and> length (snd (list_metrics test_config (success_network (JArr [JStr ''up''])) None 0 None
                    (Some ''atl'') (requests_sent warm_state))) = 2
   \<and> length (snd (list_metrics test_config (success_network (JArr [JStr ''up''])) None 0 None
                    (Some ''atl'')
                    (snd (list_metrics test_config (success_network (JArr [JStr ''up'']))
                            None 0 None (Some ''atl'') [])))) = 2"
proof -
  have a: "length (requests_sent warm_state) = 1"
    by (simp add: warm_state_eq)
  have b: "cache_valid (metrics_cache warm_state) ''atl_metrics'' 1010"
    by (simp add: warm_state_eq cache_valid_def CACHE_TTL_def)
  have c: "snd (list_metrics test_config (success_network (JArr [JStr ''up''])) None 0 None
                    (Some ''atl'') (requests_sent warm_state)) =
           requests_sent warm_state @
             [build_request test_config atl_region ''label/__name__/values'' None]"
    by (simp add: list_metrics_sent make_prometheus_request_sent [OF atl_resolves atl_url])
  have d: "length (snd (list_metrics test_config (success_network (JArr [JStr ''up''])) None 0 None
                    (Some ''atl'')
                    (snd (list_metrics test_config (success_network (JArr [JStr ''up'']))
                            None 0 None (Some ''atl'') [])))) = 2"
    by (simp add: list_metrics_sent make_prometheus_request_sent [OF atl_resolves atl_url])
  show ?thesis
    using a b d by (simp add: c)
qed

section \<open>Properties of the health check\<close>

lemma make_prometheus_request_fst:
  "fst (make_prometheus_request config net endpoint params region sent) =
     fst (make_prometheus_request config net endpoint params region [])"
  by (simp add: make_prometheus_request_def Let_def split: sum.splits prod.splits)

lemma make_prometheus_request_snd:
  "snd (make_prometheus_request config net endpoint params region sent) =
     sent @ snd (make_prometheus_request config net endpoint params region [])"
  by (simp add: make_prometheus_request_def Let_def split: sum.splits prod.splits)

lemma probe_split:
  "probe config net t region_name sent =
     (fst (probe config net t region_name []), sent @ snd (probe config net t region_name []))"
  using make_prometheus_request_fst [of config net _ _ _ sent]
    make_prometheus_request_snd [of config net _ _ _ sent]
  by (simp add: probe_def prod_eq_iff)

lemma dict_set_fresh: "k \<notin> set (map fst d) \<Longrightarrow> dict_set k v d = d @ [(k, v)]"
  by (induction d) auto

lemma check_all_regions_result:
  assumes "distinct (map fst items)"
    and "set (map fst items) \<inter> set (map fst status) = {}"
  shows "check_all_regions config net clock k items (status, healthy, sent) =
     (status @
        map (\<lambda>(i, region_name, region_config).
               (region_name,
                case fst (probe config net (clock i) region_name []) of
                  Inr d \<Rightarrow> healthy_detail region_config
                | Inl e \<Rightarrow> degraded_detail e))
          (enumerate k items),
      healthy \<and> (\<forall>(i, region_name, region_config) \<in> set (enumerate k items).
                    \<not> isl (fst (probe config net (clock i) region_name []))),
      sent @
        concat (map (\<lambda>(i, region_name, region_config).
                       snd (probe config net (clock i) region_name []))
                  (enumerate k items)))"
  using assms
proof (induction items arbitrary: k status healthy sent)
  case Nil
  then show ?case by simp
next
  case (Cons item items)
  obtain region_name region_config where item: "item = (region_name, region_config)"
    by (cases item)
  from Cons.prems item have fresh: "region_name \<notin> set (map fst status)"
    and dist: "distinct (map fst items)"
    and rest: "region_name \<notin> set (map fst items)"
    and disj: "set (map fst items) \<inter> set (map fst status) = {}"
    by auto
  have disj': "set (map fst items) \<inter> set (map fst (status @ [(region_name, v)])) = {}" for v
    using rest disj by auto
  show ?case
  proof (cases "fst (probe config net (clock k) region_name [])")
    case (Inl e)
    then show ?thesis
      using Cons.IH [OF dist disj' [of "degraded_detail e"], where k = "Suc k"
          and healthy = False]
      by (subst probe_split [of config net "clock k" region_name sent]
          | simp add: item dict_set_fresh [OF fresh])+
  next
    case (Inr d)
    then show ?thesis
      using Cons.IH [OF dist disj' [of "healthy_detail region_config"], where k = "Suc k"
          and healthy = healthy]
      by (subst probe_split [of config net "clock k" region_name sent]
          | simp add: item dict_set_fresh [OF fresh])+
  qed
qed

lemma initial_status: "map_of (initial_health_status config timestamp) ''status'' =
    Some (HStr ''healthy'')"
  by (simp add: initial_health_status_def)

lemma health_check_all:
  assumes "distinct (map fst (regions config))"
    and "opt_str region = []"
  shows "fst (health_check config net clock timestamp region sent) =
     (let regions_status =
            map (\<lambda>(i, region_name, region_config).
                   (region_name,
                    case fst (probe config net (clock i) region_name []) of
                      Inr d \<Rightarrow> healthy_detail region_config
                    | Inl e \<Rightarrow> degraded_detail e))
              (enumerate 0 (regions config));
          health_status = dict_set ''regions'' (HDict regions_status)
                            (initial_health_status config timestamp)
      in if \<exists>(i, region_name, region_config) \<in> set (enumerate 0 (regions config)).
               isl (fst (probe config net (clock i) region_name []))
         then dict_set ''status'' (HStr ''degraded'') health_status
         else health_status)"
  using assms(2)
  by (simp add: health_check_def health_check_body_def Let_def
      check_all_regions_result [OF assms(1)] case_prod_beta)

lemma health_check_unknown:
  assumes "opt_str region \<noteq> []"
    and "lower (opt_str region) \<notin> set (map fst (regions config))"
  shows "fst (health_check config net clock timestamp region sent) =
     dict_set ''error''
       (HStr (unknown_region_message (opt_str region) (sort (map fst (regions config)))))
       (dict_set ''status'' (HStr ''unhealthy'') (initial_health_status config timestamp))"
proof -
  obtain r where r: "region = Some r"
    using assms(1) by (cases region) simp_all
  have "get_region_config config region =
          Inl (ValueError (unknown_region_message r (sort (map fst (regions config)))))"
    using assms(2) r
    by (simp add: get_region_config_def Let_def map_of_eq_None_iff [THEN iffD2])
  then show ?thesis
    using assms(1) r by (simp add: health_check_def health_check_body_def Let_def)
qed

lemma health_check_status_range:
  "map_of (fst (health_check config net clock timestamp region sent)) ''status'' \<in>
     {Some (HStr ''healthy''), Some (HStr ''degraded''), Some (HStr ''unhealthy'')}"
  by (auto simp: health_check_def health_check_body_def Let_def map_of_dict_set initial_status
      split: sum.splits prod.splits if_splits)

lemma health_check_sent:
  assumes "distinct (map fst (regions config))"
    and "opt_str region = []"
  shows "snd (health_check config net clock timestamp region sent) =
     sent @ concat (map (\<lambda>(i, region_name, region_config).
                           snd (probe config net (clock i) region_name []))
                      (enumerate 0 (regions config)))"
  using assms(2)
  by (simp add: health_check_def health_check_body_def Let_def
      check_all_regions_result [OF assms(1)] case_prod_beta)

text \<open>
  C6. \<^verbatim>\<open>health_check\<close> returns a payload on every path, with a status that is
  \<^verbatim>\<open>healthy\<close>, \<^verbatim>\<open>degraded\<close> or \<^verbatim>\<open>unhealthy\<close>; no exception leaves it. Called with no
  region, it probes every configured region in turn, whatever the earlier probes gave:
  the payload holds under \<^verbatim>\<open>regions\<close> one detail per configured region, keyed by the
  region's name, healthy when that region's probe succeeded and degraded with the error
  when it failed; the calls issued are those of all the probes; and the status is
  \<^verbatim>\<open>degraded\<close> if some probe failed and \<^verbatim>\<open>healthy\<close> if none did. Called with a region
  that is not configured, the status is \<^verbatim>\<open>unhealthy\<close> and \<^verbatim>\<open>error\<close> holds the message of
  the resolution error.
\<close>

theorem health_check_aggregates:
  assumes "distinct (map fst (regions config))"
    and "outcome = fst (health_check config net clock timestamp region sent)"
    and "probed = enumerate 0 (regions config)"
  shows "map_of outcome ''status'' \<in>
           {Some (HStr ''healthy''), Some (HStr ''degraded''), Some (HStr ''unhealthy'')}
         \<and> (opt_str region = [] \<longrightarrow>
              map_of outcome ''regions'' =
                Some (HDict (map (\<lambda>(i, region_name, region_config).
                                    (region_name,
                                     case fst (probe config net (clock i) region_name []) of
                                       Inr d \<Rightarrow> healthy_detail region_config
                                     | Inl e \<Rightarrow> degraded_detail e))
                               probed))
              \<and> map_of outcome ''status'' =
                  Some (HStr (if \<exists>(i, region_name, region_config) \<in> set probed.
                                   isl (fst (probe config net (clock i) region_name []))
                              then ''degraded'' else ''healthy''))
              \<and> snd (health_check config net clock timestamp region sent) =
                  sent @ concat (map (\<lambda>(i, region_name, region_config).
                                        snd (probe config net (clock i) region_name []))
                                   probed))
         \<and> (opt_str region \<noteq> [] \<and> lower (opt_str region) \<notin> set (map fst (regions config)) \<longrightarrow>
              map_of outcome ''status'' = Some (HStr ''unhealthy'')
              \<and> map_of outcome ''error'' =
                  Some (HStr (unknown_region_message (opt_str region)
                                (sort (map fst (regions config))))))"
proof -
  have range: "map_of outcome ''status'' \<in>
           {Some (HStr ''healthy''), Some (HStr ''degraded''), Some (HStr ''unhealthy'')}"
    unfolding assms(2) by (rule health_check_status_range)
  have all: "map_of outcome ''regions'' =
                Some (HDict (map (\<lambda>(i, region_name, region_config).
                                    (region_name,
                                     case fst (probe config net (clock i) region_name []) of
                                       Inr d \<Rightarrow> healthy_detail region_config
                                     | Inl e \<Rightarrow> degraded_detail e))
                               probed))
              \<and> map_of outcome ''status'' =
                  Some (HStr (if \<exists>(i, region_name, region_config) \<in> set probed.
                                   isl (fst (probe config net (clock i) region_name []))
                              then ''degraded'' else ''healthy''))
              \<and> snd (health_check config net clock timestamp region sent) =
                  sent @ concat (map (\<lambda>(i, region_name, region_config).
                                        snd (probe config net (clock i) region_name []))
                                   probed)"
    if none: "opt_str region = []"
    unfolding assms(2,3)
    by (simp add: health_check_all [OF assms(1) none] health_check_sent [OF assms(1) none]
        Let_def map_of_dict_set initial_status)
  have unknown: "map_of outcome ''status'' = Some (HStr ''unhealthy'')
              \<and> map_of outcome ''error'' =
                  Some (HStr (unknown_region_message (opt_str region)
                                (sort (map fst (regions config)))))"
    if "opt_str region \<noteq> []" and "lower (opt_str region) \<notin> set (map fst (regions config))"
    unfolding assms(2)
    by (simp add: health_check_unknown [OF that] map_of_dict_set)
  show ?thesis
    using range all unknown by blast
qed

lemma blr_resolves: "get_region_config test_config (Some ''blr'') = Inr (''blr'', blr_region)"
  by code_simp

lemma blr_url: "url blr_region \<noteq> []"
  by (simp add: blr_region_def)

lemma probe_atl_up: "fst (probe test_config blr_down_network t ''atl'' []) = Inr vector_result"
proof -
  have r: "rstrip_slash (url atl_region) = ''http://atl.example.com:9090''"
    by code_simp
  show ?thesis
    by (simp add: probe_def make_prometheus_request_def atl_resolves atl_url Let_def
        build_request_def r blr_down_network_def success_network_def request_body_def
        raise_for_status_def vector_result_def)
qed

lemma probe_wdc_up: "fst (probe test_config blr_down_network t ''wdc'' []) = Inr vector_result"
proof -
  have r: "rstrip_slash (url wdc_region) = ''http://wdc.example.com:9090''"
    by code_simp
  show ?thesis
    by (simp add: probe_def make_prometheus_request_def wdc_resolves wdc_url Let_def
        build_request_def r blr_down_network_def success_network_def request_body_def
        raise_for_status_def vector_result_def)
qed

lemma probe_blr_down:
  "fst (probe test_config blr_down_network t ''blr'' []) =
     Inl (RequestException ''Connection refused'')"
proof -
  have r: "rstrip_slash (url blr_region) = ''http://blr.example.com:9090''"
    by code_simp
  show ?thesis
    by (simp add: probe_def make_prometheus_request_def blr_resolves blr_url Let_def
        build_request_def r blr_down_network_def request_body_def request_handlers_def)
qed

theorem health_check_aggregates_witness:
  "distinct (map fst (regions test_config))
   \<and> map_of (fst (health_check test_config blr_down_network (\<lambda>k. 1000 + real k)
                    ''2025-01-01T00:00:00'' None [])) ''status'' = Some (HStr ''degraded'')
   \<and> map_of (fst (health_check test_config blr_down_network (\<lambda>k. 1000 + real k)
                    ''2025-01-01T00:00:00'' None [])) ''regions'' =
       Some (HDict [(''atl'', healthy_detail atl_region),
                    (''blr'', degraded_detail (RequestException ''Connection refused'')),
                    (''wdc'', healthy_detail wdc_region)])
   \<and> lower ''Mars'' \<notin> set (map fst (regions test_config))
   \<and> map_of (fst (health_check test_config blr_down_network (\<lambda>k. 1000 + real k)
                    ''2025-01-01T00:00:00'' (Some ''Mars'') [])) ''status'' =
       Some (HStr ''unhealthy'')
   \<and> map_of (fst (health_check test_config blr_down_network (\<lambda>k. 1000 + real k)
                    ''2025-01-01T00:00:00'' (Some ''Mars'') [])) ''error'' =
       Some (HStr (''Region '' @ [CHR 0x27] @ ''Mars'' @ [CHR 0x27] @
                   '' is not configured. Available regions: atl, blr, wdc''))"
proof -
  have d: "distinct (map fst (regions test_config))"
    by (simp add: test_keys)
  have e: "enumerate 0 (regions test_config) =
             [(0, ''atl'', atl_region), (1, ''blr'', blr_region), (2, ''wdc'', wdc_region)]"
    by (simp add: test_config_def)
  have low: "lower ''Mars'' = ''mars''"
    by code_simp
  have m: "lower ''Mars'' \<notin> set (map fst (regions test_config))"
    by (simp add: low test_keys)
  note all = health_check_aggregates [where config = test_config and net = blr_down_network
      and clock = "\<lambda>k. 1000 + real k" and timestamp = "''2025-01-01T00:00:00''"
      and region = None and sent = "[]", OF d refl refl]
  note one = health_check_aggregates [where config = test_config and net = blr_down_network
      and clock = "\<lambda>k. 1000 + real k" and timestamp = "''2025-01-01T00:00:00''"
      and region = "Some ''Mars''" and sent = "[]", OF d refl refl]
  have a: "map_of (fst (health_check test_config blr_down_network (\<lambda>k. 1000 + real k)
                    ''2025-01-01T00:00:00'' None [])) ''status'' = Some (HStr ''degraded'')
     \<and> map_of (fst (health_check test_config blr_down_network (\<lambda>k. 1000 + real k)
                    ''2025-01-01T00:00:00'' None [])) ''regions'' =
       Some (HDict [(''atl'', healthy_detail atl_region),
                    (''blr'', degraded_detail (RequestException ''Connection refused'')),
                    (''wdc'', healthy_detail wdc_region)])"
    using all by (simp add: e probe_atl_up probe_blr_down probe_wdc_up)
  have b: "map_of (fst (health_check test_config blr_down_network (\<lambda>k. 1000 + real k)
                    ''2025-01-01T00:00:00'' (Some ''Mars'') [])) ''status'' =
       Some (HStr ''unhealthy'')
     \<and> map_of (fst (health_check test_config blr_down_network (\<lambda>k. 1000 + real k)
                    ''2025-01-01T00:00:00'' (Some ''Mars'') [])) ''error'' =
       Some (HStr (''Region '' @ [CHR 0x27] @ ''Mars'' @ [CHR 0x27] @
                   '' is not configured. Available regions: atl, blr, wdc''))"
    using one m by (simp add: test_keys sort_test_keys unknown_region_message_def)
  show ?thesis
    using a b d m by simp
qed

section \<open>A limit below zero\<close>

text \<open>
  The page formula is about limits that are counts. A negative limit moves the end of
  the slice to count from the end of the list: with three names, offset 0 and limit -1
  the page holds the first two names.
\<close>

lemma negative_limit_counts_from_end:
  "paginate_metrics (Some (- 1)) 0 None ''atl'' (JArr [JStr ''a'', JStr ''b'', JStr ''c'']) =
     Inr (JObj [(''metrics'', JArr [JStr ''a'', JStr ''b'']),
                (''total_count'', JNum 3),
                (''returned_count'', JNum 2),
                (''offset'', JNum 0),
                (''has_more'', JBool True),
                (''region'', JStr ''atl'')])"
  by (simp add: paginate_metrics_def py_slice_list_def slice_bound_def Let_def)

end
